theory Spec2Isabelle
  imports Complex_Main "HOL-Library.Word"
begin

section \<open>The driver of the ESTEIRA compiler (src/driver.c)\<close>

text \<open>
  \<^verbatim>\<open>main\<close> opens the source and the target file, writes a banner, runs the
  parser, writes a final \<^verbatim>\<open>HALT\<close> and closes what it opened. The C library and
  the parser are its environment; the model lists every call \<^verbatim>\<open>main\<close> makes to
  them, in order, as a trace of events, and what it returns.
\<close>

subsection \<open>Streams, the environment and events\<close>

text \<open>A \<^verbatim>\<open>FILE*\<close>: NULL is \<open>None\<close>, a stream is one of these handles.\<close>

datatype stream = Stdin | InFile string | OutFile string

text \<open>What \<^verbatim>\<open>fopen\<close> answers: a stream, or NULL with the message of \<^verbatim>\<open>errno\<close>.\<close>

datatype fopen_result = Opened | Failed string

text \<open>
  Modelled from the spec: the parser behind \<^verbatim>\<open>yyparse\<close> is generated from a grammar
  that is not among the sources, so what one run of it does is a parameter of the
  model: its return value, what it prints to the global \<^verbatim>\<open>out\<close>, and what it
  prints to standard error. The emitter writes one instruction or label per line and
  errors are reported as diagnostic lines, so both are lists of whole lines.
\<close>

record parse_outcome =
  res :: int
  emitted :: "string list"
  diag :: "string list"

record env =
  fopen_r :: "string \<Rightarrow> fopen_result"
  fopen_w :: "string \<Rightarrow> fopen_result"
  yyparse :: "stream option \<Rightarrow> parse_outcome"

datatype event =
    FopenR string bool
  | FopenW string bool
  | PutOut string
  | PutErr string
  | CallYyparse "stream option"
  | Fclose stream

definition NL :: char where
  "NL = CHR 0x0A"

definition line :: "string \<Rightarrow> string" where
  "line l = l @ [NL]"

text \<open>\<^verbatim>\<open>perror(s)\<close>: the string and a colon when the string is not empty, then the
  message of \<^verbatim>\<open>errno\<close> and a newline, on standard error.\<close>

definition perror :: "string \<Rightarrow> string \<Rightarrow> string" where
  "perror s msg = (if s = [] then [] else s @ '': '') @ line msg"

definition banner :: string where
  "banner = ''; Codigo gerado pela linguagem ESTEIRA para MicrowaveVM''"

text \<open>\<^verbatim>\<open>if (yyin) fclose(yyin);\<close>\<close>

definition fclose_if :: "stream option \<Rightarrow> event list" where
  "fclose_if f = (case f of None \<Rightarrow> [] | Some s \<Rightarrow> [Fclose s])"

text \<open>
  Modelled from the spec: the scanner that owns the global \<^verbatim>\<open>yyin\<close> is not among
  the sources. \<^verbatim>\<open>yyin\<close> starts unset (NULL); the scanner reads the stream
  \<^verbatim>\<open>yyin\<close> names, takes standard input when it is unset (and stores that choice in
  \<^verbatim>\<open>yyin\<close>), and never reassigns a \<^verbatim>\<open>yyin\<close> that \<^verbatim>\<open>main\<close> has set.
\<close>

definition yyin_initial :: "stream option" where
  "yyin_initial = None"

definition yyin_after_parse :: "stream option \<Rightarrow> stream option" where
  "yyin_after_parse f = (case f of None \<Rightarrow> Some Stdin | Some s \<Rightarrow> Some s)"

subsection \<open>main\<close>

text \<open>Lines 11 to 19: the two optional arguments; \<open>argc\<close> is \<open>length argv\<close>.\<close>

definition in_name :: "string list \<Rightarrow> string option" where
  "in_name argv = (if length argv \<ge> 2 then Some (argv ! 1) else None)"

definition out_name :: "string list \<Rightarrow> string" where
  "out_name argv = (if length argv \<ge> 3 then argv ! 2 else ''programa.mwasm'')"

text \<open>Lines 21 to 27: the events of opening the source, and \<^verbatim>\<open>yyin\<close> afterwards;
  \<open>Inl\<close> is the early \<^verbatim>\<open>return 1\<close>.\<close>

definition open_input :: "env \<Rightarrow> string option \<Rightarrow> event list + (stream option \<times> event list)" where
  "open_input e n =
     (case n of
        None \<Rightarrow> Inr (yyin_initial, [])
      | Some p \<Rightarrow>
          (case fopen_r e p of
             Failed msg \<Rightarrow> Inl [FopenR p False, PutErr (perror p msg)]
           | Opened \<Rightarrow> Inr (Some (InFile p), [FopenR p True])))"

text \<open>Lines 36 to 47, once both files are open.\<close>

definition compile_events :: "env \<Rightarrow> stream option \<Rightarrow> string \<Rightarrow> int \<times> event list" where
  "compile_events e yyin outp =
     (let p = yyparse e yyin in
      (res p,
       [PutOut (line banner), CallYyparse yyin]
       @ map (PutOut \<circ> line) (emitted p)
       @ map (PutErr \<circ> line) (diag p)
       @ (if res p \<noteq> 0 then [PutErr (line ''Falha na compilacao'')] else [])
       @ [PutOut (line ''HALT''), Fclose (OutFile outp)]
       @ fclose_if (yyin_after_parse yyin)))"

text \<open>The whole function: the exit code and the trace.\<close>

definition main :: "env \<Rightarrow> string list \<Rightarrow> int \<times> event list" where
  "main e argv =
     (case open_input e (in_name argv) of
        Inl t \<Rightarrow> (1, t)
      | Inr (yyin, t1) \<Rightarrow>
          (case fopen_w e (out_name argv) of
             Failed msg \<Rightarrow>
               (1, t1 @ [FopenW (out_name argv) False, PutErr (perror (out_name argv) msg)]
                   @ fclose_if yyin)
           | Opened \<Rightarrow>
               (case compile_events e yyin (out_name argv) of
                  (r, t2) \<Rightarrow> (r, t1 @ [FopenW (out_name argv) True] @ t2))))"

subsection \<open>What a trace leaves behind\<close>

fun out_chunk :: "event \<Rightarrow> string" where
  "out_chunk (PutOut s) = s"
| "out_chunk _ = []"

fun err_chunk :: "event \<Rightarrow> string" where
  "err_chunk (PutErr s) = s"
| "err_chunk _ = []"

text \<open>The text written to the output stream, and to standard error.\<close>

definition out_text :: "event list \<Rightarrow> string" where
  "out_text t = concat (map out_chunk t)"

definition err_text :: "event list \<Rightarrow> string" where
  "err_text t = concat (map err_chunk t)"

fun is_out_open :: "event \<Rightarrow> bool" where
  "is_out_open (FopenW _ ok) = ok"
| "is_out_open _ = False"

fun is_out_attempt :: "event \<Rightarrow> bool" where
  "is_out_attempt (FopenW _ _) = True"
| "is_out_attempt (PutOut _) = True"
| "is_out_attempt _ = False"

definition out_opened :: "event list \<Rightarrow> bool" where
  "out_opened t = list_ex is_out_open t"

text \<open>The streams opened by \<^verbatim>\<open>fopen\<close> and not closed yet, after each event.\<close>

fun track :: "stream list \<Rightarrow> event \<Rightarrow> stream list" where
  "track op (FopenR p ok) = (if ok then InFile p # op else op)"
| "track op (FopenW p ok) = (if ok then OutFile p # op else op)"
| "track op (Fclose s) = removeAll s op"
| "track op _ = op"

definition still_open :: "event list \<Rightarrow> stream list" where
  "still_open t = foldl track [] t"

text \<open>A text file as its lines: a newline ends a line.\<close>

fun lines_of :: "string \<Rightarrow> string list" where
  "lines_of [] = []"
| "lines_of (c # cs) =
     (if c = NL then [] # lines_of cs
      else (case lines_of cs of [] \<Rightarrow> [[c]] | l # ls \<Rightarrow> (c # l) # ls))"

definition unlines :: "string list \<Rightarrow> string" where
  "unlines ls = concat (map line ls)"

fun fopen_events :: "event list \<Rightarrow> event list" where
  "fopen_events [] = []"
| "fopen_events (FopenR p ok # t) = FopenR p ok # fopen_events t"
| "fopen_events (FopenW p ok # t) = FopenW p ok # fopen_events t"
| "fopen_events (_ # t) = fopen_events t"

text \<open>Whether the source named on the command line, if any, opens; whether the
  target opens; the stream \<^verbatim>\<open>yyin\<close> names when \<^verbatim>\<open>yyparse\<close> is called, and what
  that call does.\<close>

definition input_ok :: "env \<Rightarrow> string list \<Rightarrow> bool" where
  "input_ok e argv = (case in_name argv of None \<Rightarrow> True | Some p \<Rightarrow> fopen_r e p = Opened)"

definition output_ok :: "env \<Rightarrow> string list \<Rightarrow> bool" where
  "output_ok e argv = (fopen_w e (out_name argv) = Opened)"

definition parser_input :: "string list \<Rightarrow> stream option" where
  "parser_input argv = map_option InFile (in_name argv)"

definition parse_of :: "env \<Rightarrow> string list \<Rightarrow> parse_outcome" where
  "parse_of e argv = yyparse e (parser_input argv)"

definition input_events :: "string list \<Rightarrow> event list" where
  "input_events argv = (case in_name argv of None \<Rightarrow> [] | Some p \<Rightarrow> [FopenR p True])"

definition starts_with :: "string \<Rightarrow> string \<Rightarrow> bool" where
  "starts_with p s = (take (length p) s = p)"

text \<open>Line 31: what \<^verbatim>\<open>perror(out_name)\<close> prints when the target does not open.\<close>

definition last_perror :: "env \<Rightarrow> string list \<Rightarrow> string" where
  "last_perror e argv =
     (case fopen_w e (out_name argv) of Failed msg \<Rightarrow> perror (out_name argv) msg | Opened \<Rightarrow> [])"

text \<open>The file whose \<^verbatim>\<open>fopen\<close> fails first, in the order \<^verbatim>\<open>main\<close> tries them (lines
  22 and 29), with the message of \<^verbatim>\<open>errno\<close>; \<open>None\<close> when both open.\<close>

definition target_failure :: "env \<Rightarrow> string list \<Rightarrow> (string \<times> string) option" where
  "target_failure e argv =
     (case fopen_w e (out_name argv) of
        Failed msg \<Rightarrow> Some (out_name argv, msg)
      | Opened \<Rightarrow> None)"

definition open_failure :: "env \<Rightarrow> string list \<Rightarrow> (string \<times> string) option" where
  "open_failure e argv =
     (case in_name argv of
        None \<Rightarrow> target_failure e argv
      | Some p \<Rightarrow>
          (case fopen_r e p of
             Failed msg \<Rightarrow> Some (p, msg)
           | Opened \<Rightarrow> target_failure e argv))"

text \<open>An environment to run \<^verbatim>\<open>main\<close> in: one source file exists, one target
  directory is read-only, and the parser accepts the file and rejects what comes from
  standard input after emitting one instruction.\<close>

definition sample_env :: env where
  "sample_env =
     \<lparr>fopen_r = (\<lambda>p. if p = ''prog.est'' then Opened else Failed ''No such file or directory''),
      fopen_w = (\<lambda>p. if p = ''/ro/out.mwasm'' then Failed ''Permission denied'' else Opened),
      yyparse = (\<lambda>f. if f = Some (InFile ''prog.est'')
                        then \<lparr>res = 0, emitted = [''POWERON'', ''BEEP''], diag = []\<rparr>
                        else \<lparr>res = 1, emitted = [''POWERON''], diag = [''syntax error'']\<rparr>)\<rparr>"

section \<open>The translator, after the specification\<close>

text \<open>
  The grammar file and the scanner are not among the sources: only the token kinds
  they share (parser.tab.h) are. What \<^verbatim>\<open>yyparse\<close> emits for a program is therefore
  modelled from the specification's grammar and emission rules, on the syntax tree
  of the program. Scanning and syntax errors are outside this model, and so is type
  checking, which the specification describes by example only: the model reports
  undeclared and duplicate names and misused units, and translates every other
  program.
\<close>

subsection \<open>Syntax\<close>

text \<open>Modelled from the spec: the unit suffixes, named as the tokens of parser.tab.h.\<close>

datatype unit_suffix =
    UNIT_KM_H | UNIT_M_S | UNIT_PERCENT | UNIT_GRAUS | UNIT_BPM
  | UNIT_KM | UNIT_M | UNIT_MIN | UNIT_S | UNIT_MS

text \<open>Modelled from the spec: the value of a numeric literal, as parser.tab.h declares
  it: \<^verbatim>\<open>long long ival\<close> for \<^verbatim>\<open>INT_LIT\<close>, a 64-bit word read as two's complement,
  and \<^verbatim>\<open>double fval\<close> for \<^verbatim>\<open>FLOAT_LIT\<close>. Doubles are not modelled bit by bit:
  their type is the parameter \<open>'d\<close>.\<close>

datatype 'd number = IntLit "64 word" | FloatLit 'd

text \<open>Modelled from the spec: the two operations on doubles that normalisation needs,
  as parameters: the conversion of a \<^verbatim>\<open>long long\<close> to a double, and the product of
  a double with the constant factor of a unit, rounded as the machine's arithmetic
  rounds it.\<close>

record 'd double_ops =
  of_ll :: "64 word \<Rightarrow> 'd"
  times :: "rat \<Rightarrow> 'd \<Rightarrow> 'd"

text \<open>Modelled from the spec: the registers and the type keywords (tokens of
  parser.tab.h).\<close>

datatype reg = R0 | R1 | R2 | R3

datatype type_kw = TYPE_INT | TYPE_FLOAT | TYPE_BOOL | TYPE_STRING

text \<open>Modelled from the spec: expressions of the grammar of section 4.4; a
  parenthesised expression is the expression itself.\<close>

datatype arith_op = OpAdd | OpSub | OpMul | OpDiv

datatype cmp_op = OpEq | OpNe | OpLt | OpGt | OpLe | OpGe

datatype 'd expr =
    Num "'d number" "unit_suffix option"
  | Str string
  | BoolLit bool
  | SensorRead string
  | Ident string
  | UMinus "'d expr"
  | UPlus "'d expr"
  | Arith arith_op "'d expr" "'d expr"
  | Cmp cmp_op "'d expr" "'d expr"
  | LAnd "'d expr" "'d expr"
  | LOr "'d expr" "'d expr"

text \<open>Modelled from the spec: statements, declarations and programs of the grammar.
  A \<^verbatim>\<open>SE\<close> without \<^verbatim>\<open>SENAO\<close> has the empty list as its second branch.\<close>

datatype 'd stmt =
    Assign string "'d expr"
  | Se "'d expr" "'d stmt list" "'d stmt list"
  | Enquanto "'d expr" "'d stmt list"
  | Mostrar "'d expr list"
  | Bip
  | Esperar "'d expr" "unit_suffix option"
  | Ligar
  | Desligar
  | Iniciar
  | Definir string "'d expr"
  | Parar

datatype 'd decl =
    VarDecl type_kw string "'d expr option"
  | RegDecl reg string
  | MemDecl "64 word" string

datatype 'd program = Program string "'d decl list" "'d stmt list"

subsection \<open>The target\<close>

text \<open>Modelled from the spec: storage slots and the instructions of section 6.2; a
  label is its ordinal.\<close>

datatype slot = SlotReg reg | SlotMem "64 word" | SlotVar string

datatype 'd instr =
    PUSH "'d number" | PUSHS string | LOAD slot | STORE slot
  | ADD | SUB | MUL | DIV | NEG
  | CMPEQ | CMPNE | CMPLT | CMPGT | CMPLE | CMPGE
  | JZ nat | JNZ nat | JMP nat
  | READSENS string
  | POWERON | POWEROFF | START
  | SETPARAM string
  | PRINT nat | BEEP | SLEEP
  | HALT
  | LABEL nat

text \<open>Modelled from the spec: the error kinds of section 7.\<close>

datatype error =
    LexicalError | SyntaxError | UndeclaredSymbol string | DuplicateSymbol string
  | TypeMismatch | UnitMisuse | IOError

subsection \<open>Symbol table\<close>

text \<open>Modelled from the spec: a symbol is a variable of a declared type, an alias of a
  register, or an alias of a memory cell; the table is one flat namespace.\<close>

datatype symbol = Variable type_kw | RegisterAlias reg | MemoryAlias "64 word"

type_synonym symtab = "(string \<times> symbol) list"

text \<open>Modelled from the spec: \<open>lookup\<close> fails with \<open>UndeclaredSymbol\<close> when the name is
  absent.\<close>

definition lookup :: "symtab \<Rightarrow> string \<Rightarrow> error + symbol" where
  "lookup tab x = (case map_of tab x of None \<Rightarrow> Inl (UndeclaredSymbol x) | Some s \<Rightarrow> Inr s)"

text \<open>Modelled from the spec: \<open>declare\<close> inserts, and fails with \<open>DuplicateSymbol\<close>
  when the name is present.\<close>

definition declare_symbol :: "symtab \<Rightarrow> string \<Rightarrow> symbol \<Rightarrow> error + symtab" where
  "declare_symbol tab x s =
     (case map_of tab x of None \<Rightarrow> Inr (tab @ [(x, s)]) | Some _ \<Rightarrow> Inl (DuplicateSymbol x))"

text \<open>Modelled from the spec: the slot behind a name: the register, the memory cell,
  or \<^verbatim>\<open>VAR_<name>\<close>.\<close>

fun backing :: "string \<Rightarrow> symbol \<Rightarrow> slot" where
  "backing x (Variable _) = SlotVar x"
| "backing x (RegisterAlias r) = SlotReg r"
| "backing x (MemoryAlias k) = SlotMem k"

subsection \<open>Units\<close>

text \<open>Modelled from the spec: a literal as a double.\<close>

fun to_double :: "'d double_ops \<Rightarrow> 'd number \<Rightarrow> 'd" where
  "to_double ops (IntLit k) = of_ll ops k"
| "to_double ops (FloatLit x) = x"

text \<open>Modelled from the spec: a literal times a whole factor keeps its kind. The
  product of two \<^verbatim>\<open>long long\<close> is the 64-bit product: C leaves its overflow
  undefined and the specification names no error for it, the model keeps the low 64
  bits.\<close>

fun scale :: "'d double_ops \<Rightarrow> int \<Rightarrow> 'd number \<Rightarrow> 'd number" where
  "scale ops f (IntLit k) = IntLit (word_of_int f * k)"
| "scale ops f (FloatLit x) = FloatLit (times ops (of_int f) x)"

text \<open>Modelled from the spec: normalisation of the literal that carries the unit, row
  by row of the unit table: \<^verbatim>\<open>km/h\<close> (factor 1000/3600) and \<^verbatim>\<open>%\<close> (factor 1/100)
  give a floating value, \<^verbatim>\<open>km\<close>, \<^verbatim>\<open>min\<close> and \<^verbatim>\<open>s\<close> multiply by 1000, 60000 and
  1000, and the units that are canonical already pass the literal through.\<close>

fun normalise :: "'d double_ops \<Rightarrow> unit_suffix \<Rightarrow> 'd number \<Rightarrow> 'd number" where
  "normalise ops UNIT_KM_H v = FloatLit (times ops (1000 / 3600) (to_double ops v))"
| "normalise ops UNIT_M_S v = v"
| "normalise ops UNIT_KM v = scale ops 1000 v"
| "normalise ops UNIT_M v = v"
| "normalise ops UNIT_MIN v = scale ops 60000 v"
| "normalise ops UNIT_S v = scale ops 1000 v"
| "normalise ops UNIT_MS v = v"
| "normalise ops UNIT_PERCENT v = FloatLit (times ops (1 / 100) (to_double ops v))"
| "normalise ops UNIT_GRAUS v = v"
| "normalise ops UNIT_BPM v = v"

text \<open>Modelled from the spec: the units whose canonical unit is the millisecond, the
  ones \<^verbatim>\<open>ESPERAR\<close> accepts.\<close>

fun is_time :: "unit_suffix \<Rightarrow> bool" where
  "is_time UNIT_MIN = True"
| "is_time UNIT_S = True"
| "is_time UNIT_MS = True"
| "is_time _ = False"

subsection \<open>Emission\<close>

text \<open>
  Modelled from the spec: translation is one pass and streaming. A piece of the
  translator takes the next label ordinal and gives the instructions it appended to
  the output, the next label ordinal afterwards, and the error that aborted it, if
  any; what was emitted before an error stays emitted.
\<close>

type_synonym 'd gen = "nat \<Rightarrow> 'd instr list \<times> nat \<times> error option"

definition emit :: "'d instr list \<Rightarrow> 'd gen" where
  "emit c n = (c, n, None)"

definition abort :: "error \<Rightarrow> 'd gen" where
  "abort e n = ([], n, Some e)"

text \<open>Modelled from the spec: one piece after another; an error in the first aborts.\<close>

definition andthen :: "'d gen \<Rightarrow> 'd gen \<Rightarrow> 'd gen" where
  "andthen f g n =
     (case f n of
        (c1, n1, Some e) \<Rightarrow> (c1, n1, Some e)
      | (c1, n1, None) \<Rightarrow> (case g n1 of (c2, n2, r) \<Rightarrow> (c1 @ c2, n2, r)))"

text \<open>Modelled from the spec: the label generator issues a fresh ordinal on demand,
  counting from 0.\<close>

definition new_label :: "(nat \<Rightarrow> 'd gen) \<Rightarrow> 'd gen" where
  "new_label k n = k n (Suc n)"

fun arith_instr :: "arith_op \<Rightarrow> 'd instr" where
  "arith_instr OpAdd = ADD"
| "arith_instr OpSub = SUB"
| "arith_instr OpMul = MUL"
| "arith_instr OpDiv = DIV"

fun cmp_instr :: "cmp_op \<Rightarrow> 'd instr" where
  "cmp_instr OpEq = CMPEQ"
| "cmp_instr OpNe = CMPNE"
| "cmp_instr OpLt = CMPLT"
| "cmp_instr OpGt = CMPGT"
| "cmp_instr OpLe = CMPLE"
| "cmp_instr OpGe = CMPGE"

text \<open>Modelled from the spec: the emission rules for expressions, each label drawn
  where it is first emitted.\<close>

fun cexpr :: "'d double_ops \<Rightarrow> symtab \<Rightarrow> 'd expr \<Rightarrow> 'd gen" where
  "cexpr ops tab (Num v None) = emit [PUSH v]"
| "cexpr ops tab (Num v (Some u)) = emit [PUSH (normalise ops u v)]"
| "cexpr ops tab (BoolLit b) = emit [PUSH (IntLit (if b then 1 else 0))]"
| "cexpr ops tab (Str s) = emit [PUSHS s]"
| "cexpr ops tab (Ident x) =
     (case lookup tab x of
        Inl e \<Rightarrow> abort e
      | Inr sy \<Rightarrow> emit [LOAD (backing x sy)])"
| "cexpr ops tab (SensorRead x) = emit [READSENS x]"
| "cexpr ops tab (Arith oper a b) =
     andthen (cexpr ops tab a) (andthen (cexpr ops tab b) (emit [arith_instr oper]))"
| "cexpr ops tab (Cmp oper a b) =
     andthen (cexpr ops tab a) (andthen (cexpr ops tab b) (emit [cmp_instr oper]))"
| "cexpr ops tab (UMinus a) = andthen (cexpr ops tab a) (emit [NEG])"
| "cexpr ops tab (UPlus a) = cexpr ops tab a"
| "cexpr ops tab (LAnd a b) =
     andthen (cexpr ops tab a)
       (new_label (\<lambda>lfalse.
          andthen (emit [JZ lfalse])
            (andthen (cexpr ops tab b)
               (new_label (\<lambda>lend.
                  emit [JMP lend, LABEL lfalse, PUSH (IntLit 0), LABEL lend])))))"
| "cexpr ops tab (LOr a b) =
     andthen (cexpr ops tab a)
       (new_label (\<lambda>ltrue.
          andthen (emit [JNZ ltrue])
            (andthen (cexpr ops tab b)
               (new_label (\<lambda>lend.
                  emit [JMP lend, LABEL ltrue, PUSH (IntLit 1), LABEL lend])))))"

text \<open>Modelled from the spec: the arguments of \<^verbatim>\<open>MOSTRAR\<close>, in order.\<close>

fun cexprs :: "'d double_ops \<Rightarrow> symtab \<Rightarrow> 'd expr list \<Rightarrow> 'd gen" where
  "cexprs ops tab [] = emit []"
| "cexprs ops tab (a # as) = andthen (cexpr ops tab a) (cexprs ops tab as)"

text \<open>Modelled from the spec: \<^verbatim>\<open>ESPERAR\<close>. A unit after the expression is applied
  to a plain numeric literal and must be a time unit; on anything else, and for a
  literal whose own unit is not a time unit, the translation fails with
  \<open>UnitMisuse\<close>.\<close>

definition cesperar :: "'d double_ops \<Rightarrow> symtab \<Rightarrow> 'd expr \<Rightarrow> unit_suffix option \<Rightarrow> 'd gen" where
  "cesperar ops tab a u =
     (case u of
        Some t \<Rightarrow>
          (case a of
             Num v None \<Rightarrow> if is_time t then emit [PUSH (normalise ops t v), SLEEP] else abort UnitMisuse
           | _ \<Rightarrow> abort UnitMisuse)
      | None \<Rightarrow>
          (case a of
             Num v (Some t) \<Rightarrow>
               if is_time t then andthen (cexpr ops tab a) (emit [SLEEP]) else abort UnitMisuse
           | _ \<Rightarrow> andthen (cexpr ops tab a) (emit [SLEEP])))"

text \<open>Modelled from the spec: the emission rules for statements and blocks.\<close>

fun cstmt :: "'d double_ops \<Rightarrow> symtab \<Rightarrow> 'd stmt \<Rightarrow> 'd gen"
  and cstmts :: "'d double_ops \<Rightarrow> symtab \<Rightarrow> 'd stmt list \<Rightarrow> 'd gen" where
  "cstmt ops tab (Assign x a) =
     andthen (cexpr ops tab a)
       (case lookup tab x of
          Inl e \<Rightarrow> abort e
        | Inr sy \<Rightarrow> emit [STORE (backing x sy)])"
| "cstmt ops tab (Se c t f) =
     andthen (cexpr ops tab c)
       (new_label (\<lambda>lelse.
          andthen (emit [JZ lelse])
            (andthen (cstmts ops tab t)
               (new_label (\<lambda>lend.
                  andthen (emit [JMP lend, LABEL lelse])
                    (andthen (cstmts ops tab f) (emit [LABEL lend])))))))"
| "cstmt ops tab (Enquanto c b) =
     new_label (\<lambda>ltop.
       andthen (emit [LABEL ltop])
         (andthen (cexpr ops tab c)
            (new_label (\<lambda>lend.
               andthen (emit [JZ lend])
                 (andthen (cstmts ops tab b) (emit [JMP ltop, LABEL lend]))))))"
| "cstmt ops tab (Mostrar as) = andthen (cexprs ops tab as) (emit [PRINT (length as)])"
| "cstmt ops tab Bip = emit [BEEP]"
| "cstmt ops tab (Esperar a u) = cesperar ops tab a u"
| "cstmt ops tab Ligar = emit [POWERON]"
| "cstmt ops tab Desligar = emit [POWEROFF]"
| "cstmt ops tab Iniciar = emit [START]"
| "cstmt ops tab (Definir x a) = andthen (cexpr ops tab a) (emit [SETPARAM x])"
| "cstmt ops tab Parar = emit [HALT]"
| "cstmts ops tab [] = emit []"
| "cstmts ops tab (s # ss) = andthen (cstmt ops tab s) (cstmts ops tab ss)"

text \<open>Modelled from the spec: declarations. A variable's initialiser is translated,
  then the name is declared and the value stored; an alias emits nothing.\<close>

definition declared :: "symtab \<Rightarrow> string \<Rightarrow> symbol \<Rightarrow> 'd instr list
    \<Rightarrow> nat \<Rightarrow> symtab \<times> 'd instr list \<times> nat \<times> error option" where
  "declared tab x s c n =
     (case declare_symbol tab x s of
        Inl e \<Rightarrow> (tab, [], n, Some e)
      | Inr tab' \<Rightarrow> (tab', c, n, None))"

fun cdecl :: "'d double_ops \<Rightarrow> symtab \<Rightarrow> 'd decl \<Rightarrow> nat
    \<Rightarrow> symtab \<times> 'd instr list \<times> nat \<times> error option" where
  "cdecl ops tab (VarDecl ty x None) n = declared tab x (Variable ty) [] n"
| "cdecl ops tab (VarDecl ty x (Some a)) n =
     (case cexpr ops tab a n of
        (c, n1, Some e) \<Rightarrow> (tab, c, n1, Some e)
      | (c, n1, None) \<Rightarrow>
          (case declared tab x (Variable ty) [STORE (SlotVar x)] n1 of
             (tab', c', n2, r) \<Rightarrow> (tab', c @ c', n2, r)))"
| "cdecl ops tab (RegDecl r x) n = declared tab x (RegisterAlias r) [] n"
| "cdecl ops tab (MemDecl k x) n = declared tab x (MemoryAlias k) [] n"

fun cdecls :: "'d double_ops \<Rightarrow> symtab \<Rightarrow> 'd decl list \<Rightarrow> nat
    \<Rightarrow> symtab \<times> 'd instr list \<times> nat \<times> error option" where
  "cdecls ops tab [] n = (tab, [], n, None)"
| "cdecls ops tab (d # ds) n =
     (case cdecl ops tab d n of
        (tab1, c1, n1, Some e) \<Rightarrow> (tab1, c1, n1, Some e)
      | (tab1, c1, n1, None) \<Rightarrow>
          (case cdecls ops tab1 ds n1 of (tab2, c2, n2, r) \<Rightarrow> (tab2, c1 @ c2, n2, r)))"

text \<open>Modelled from the spec: a program: the declarations, then the statements, with
  an empty symbol table and the label counter at 0. The result is the instructions
  emitted, the number of labels issued, and the error, if one aborted the run.\<close>

fun translate :: "'d double_ops \<Rightarrow> 'd program \<Rightarrow> 'd instr list \<times> nat \<times> error option" where
  "translate ops (Program name ds ss) =
     (case cdecls ops [] ds 0 of
        (tab, c1, n1, Some e) \<Rightarrow> (c1, n1, Some e)
      | (tab, c1, n1, None) \<Rightarrow>
          (case cstmts ops tab ss n1 of (c2, n2, r) \<Rightarrow> (c1 @ c2, n2, r)))"

subsection \<open>Labels in the output\<close>

text \<open>The labels an instruction list defines, in order, and the labels its jumps
  mention.\<close>

fun defs :: "'d instr list \<Rightarrow> nat list" where
  "defs [] = []"
| "defs (LABEL k # c) = k # defs c"
| "defs (_ # c) = defs c"

fun refs :: "'d instr list \<Rightarrow> nat list" where
  "refs [] = []"
| "refs (JZ k # c) = k # refs c"
| "refs (JNZ k # c) = k # refs c"
| "refs (JMP k # c) = k # refs c"
| "refs (_ # c) = refs c"

subsection \<open>The text of an instruction\<close>

definition digit :: "nat \<Rightarrow> char" where
  "digit d = ''0123456789'' ! d"

fun show_nat :: "nat \<Rightarrow> string" where
  "show_nat n = (if n < 10 then [digit n] else show_nat (n div 10) @ [digit (n mod 10)])"

definition show_int :: "int \<Rightarrow> string" where
  "show_int k = (if k < 0 then ''-'' @ show_nat (nat (- k)) else show_nat (nat k))"

fun show_reg :: "reg \<Rightarrow> string" where
  "show_reg R0 = ''R0''"
| "show_reg R1 = ''R1''"
| "show_reg R2 = ''R2''"
| "show_reg R3 = ''R3''"

text \<open>Modelled from the spec: slots are written \<^verbatim>\<open>R0..R3\<close>, \<^verbatim>\<open>MEM[<int>]\<close> and
  \<^verbatim>\<open>VAR_<name>\<close>, a label \<^verbatim>\<open>L<n>\<close>.\<close>

fun show_slot :: "slot \<Rightarrow> string" where
  "show_slot (SlotReg r) = show_reg r"
| "show_slot (SlotMem k) = ''MEM['' @ show_int (sint k) @ '']''"
| "show_slot (SlotVar x) = ''VAR_'' @ x"

definition label_name :: "nat \<Rightarrow> string" where
  "label_name n = ''L'' @ show_nat n"

text \<open>Modelled from the spec: one instruction per line, a label on a line of its own
  ended by a colon. The specification does not fix how a floating operand of
  \<^verbatim>\<open>PUSH\<close> is printed: that is the parameter \<open>fmt\<close>.\<close>

fun render :: "('d \<Rightarrow> string) \<Rightarrow> 'd instr \<Rightarrow> string" where
  "render fmt (PUSH (IntLit k)) = ''PUSH '' @ show_int (sint k)"
| "render fmt (PUSH (FloatLit x)) = ''PUSH '' @ fmt x"
| "render fmt (PUSHS s) = ''PUSHS '' @ [CHR 0x22] @ s @ [CHR 0x22]"
| "render fmt (LOAD s) = ''LOAD '' @ show_slot s"
| "render fmt (STORE s) = ''STORE '' @ show_slot s"
| "render fmt ADD = ''ADD''"
| "render fmt SUB = ''SUB''"
| "render fmt MUL = ''MUL''"
| "render fmt DIV = ''DIV''"
| "render fmt NEG = ''NEG''"
| "render fmt CMPEQ = ''CMPEQ''"
| "render fmt CMPNE = ''CMPNE''"
| "render fmt CMPLT = ''CMPLT''"
| "render fmt CMPGT = ''CMPGT''"
| "render fmt CMPLE = ''CMPLE''"
| "render fmt CMPGE = ''CMPGE''"
| "render fmt (JZ k) = ''JZ '' @ label_name k"
| "render fmt (JNZ k) = ''JNZ '' @ label_name k"
| "render fmt (JMP k) = ''JMP '' @ label_name k"
| "render fmt (READSENS x) = ''READSENS '' @ x"
| "render fmt POWERON = ''POWERON''"
| "render fmt POWEROFF = ''POWEROFF''"
| "render fmt START = ''START''"
| "render fmt (SETPARAM x) = ''SETPARAM '' @ x"
| "render fmt (PRINT n) = ''PRINT '' @ show_nat n"
| "render fmt BEEP = ''BEEP''"
| "render fmt SLEEP = ''SLEEP''"
| "render fmt HALT = ''HALT''"
| "render fmt (LABEL k) = label_name k @ '':''"



text \<open>Modelled from the spec: what \<^verbatim>\<open>yyparse\<close> does on a program: it emits the lines
  of the translation and returns 0, or, when an error aborts it, reports the error on
  one line and returns 1. The wording of the report is the parameter \<open>describe\<close>.\<close>

definition yyparse_of :: "'d double_ops \<Rightarrow> ('d \<Rightarrow> string) \<Rightarrow> (error \<Rightarrow> string) \<Rightarrow> 'd program
    \<Rightarrow> parse_outcome" where
  "yyparse_of ops fmt describe p =
     (case translate ops p of
        (c, n, r) \<Rightarrow>
          \<lparr>res = (case r of None \<Rightarrow> 0 | Some _ \<Rightarrow> 1),
           emitted = map (render fmt) c,
           diag = (case r of None \<Rightarrow> [] | Some e \<Rightarrow> [describe e])\<rparr>)"

text \<open>The statements that map to one mnemonic each.\<close>

fun is_command :: "'d stmt \<Rightarrow> bool" where
  "is_command Ligar = True"
| "is_command Desligar = True"
| "is_command Bip = True"
| "is_command Iniciar = True"
| "is_command Parar = True"
| "is_command _ = False"

fun mnemonic :: "'d stmt \<Rightarrow> string" where
  "mnemonic Ligar = ''POWERON''"
| "mnemonic Desligar = ''POWEROFF''"
| "mnemonic Bip = ''BEEP''"
| "mnemonic Iniciar = ''START''"
| "mnemonic Parar = ''HALT''"
| "mnemonic _ = []"

subsection \<open>The label discipline, as an invariant of a piece of the translator\<close>

text \<open>
  A result started at counter \<open>n\<close> is fine for the outer labels \<open>R\<close> it may mention
  and the outer labels \<open>D\<close> it has to define when: the counter did not go back, every
  jump mentions an outer label or one issued meanwhile, no label is defined twice,
  only labels of \<open>D\<close> or issued meanwhile are defined, and all of them when no error
  aborted the piece.
\<close>

definition fine :: "nat set \<Rightarrow> nat set \<Rightarrow> nat \<Rightarrow> 'd instr list \<times> nat \<times> error option \<Rightarrow> bool" where
  "fine R D n x =
     (case x of
        (c, n', r) \<Rightarrow>
          n \<le> n' \<and> set (refs c) \<subseteq> R \<union> {n..<n'} \<and> distinct (defs c)
          \<and> set (defs c) \<subseteq> D \<union> {n..<n'}
          \<and> (r = None \<longrightarrow> set (defs c) = D \<union> {n..<n'}))"

definition labels_ok :: "nat set \<Rightarrow> nat set \<Rightarrow> 'd gen \<Rightarrow> bool" where
  "labels_ok R D g = (\<forall>n. (\<forall>d \<in> D. d < n) \<longrightarrow> fine R D n (g n))"

text \<open>An arithmetic to run examples in: rationals stand for doubles and nothing is
  rounded. Only the examples use it.\<close>

definition exact_ops :: "rat double_ops" where
  "exact_ops = \<lparr>of_ll = (\<lambda>k. of_int (sint k)), times = (\<lambda>f x. f * x)\<rparr>"

text \<open>An environment in which both files open and the parser is the translator above,
  run on the given program.\<close>

definition translating_env :: "rat program \<Rightarrow> env" where
  "translating_env p =
     \<lparr>fopen_r = (\<lambda>_. Opened), fopen_w = (\<lambda>_. Opened),
      yyparse = (\<lambda>_. yyparse_of exact_ops (\<lambda>_. ''?'') (\<lambda>_. ''erro'') p)\<rparr>"

section \<open>Properties of main\<close>

lemma main_input_failure:
  assumes "length argv \<ge> 2" and "fopen_r e (argv ! 1) = Failed msg"
  shows "main e argv = (1, [FopenR (argv ! 1) False, PutErr (perror (argv ! 1) msg)])"
  using assms by (simp add: main_def open_input_def in_name_def)

lemma lines_of_line_append:
  "NL \<notin> set l \<Longrightarrow> lines_of (l @ NL # rest) = l # lines_of rest"
  by (induction l) auto

lemma lines_of_nonempty: "cs \<noteq> [] \<Longrightarrow> lines_of cs \<noteq> []"
  by (cases cs) (auto split: list.splits)

lemma lines_of_append:
  "xs = [] \<or> last xs = NL \<Longrightarrow> lines_of (xs @ ys) = lines_of xs @ lines_of ys"
proof (induction xs)
  case Nil
  then show ?case by simp
next
  case (Cons c cs)
  show ?case
  proof (cases "cs = []")
    case True
    with Cons.prems show ?thesis by simp
  next
    case False
    with Cons.prems have "last cs = NL" by simp
    with Cons.IH have ih: "lines_of (cs @ ys) = lines_of cs @ lines_of ys" by simp
    from False obtain l ls where "lines_of cs = l # ls"
      using lines_of_nonempty [of cs] by (cases "lines_of cs") auto
    with ih show ?thesis by simp
  qed
qed

lemma unlines_Nil: "unlines [] = []"
  by (simp add: unlines_def)

lemma unlines_Cons: "unlines (l # ls) = l @ NL # unlines ls"
  by (simp add: unlines_def line_def)

lemma unlines_end: "unlines ls = [] \<or> last (unlines ls) = NL"
  by (induction ls) (auto simp: unlines_Nil unlines_Cons)

lemma lines_of_unlines:
  "\<forall>l \<in> set ls. NL \<notin> set l \<Longrightarrow> lines_of (unlines ls) = ls"
  by (induction ls) (auto simp: unlines_Nil unlines_Cons lines_of_line_append)

lemma NL_notin_banner: "NL \<notin> set banner"
  by (simp add: banner_def NL_def)

lemma NL_notin_HALT: "NL \<notin> set ''HALT''"
  by (simp add: NL_def)

lemma out_text_append: "out_text (a @ b) = out_text a @ out_text b"
  by (simp add: out_text_def)

lemma err_text_append: "err_text (a @ b) = err_text a @ err_text b"
  by (simp add: err_text_def)

lemma out_text_puts: "out_text (map (PutOut \<circ> line) ls) = unlines ls"
  by (induction ls) (auto simp: out_text_def unlines_def)

lemma out_text_errs: "out_text (map (PutErr \<circ> line) ls) = []"
  by (induction ls) (auto simp: out_text_def)

lemma err_text_puts: "err_text (map (PutOut \<circ> line) ls) = []"
  by (induction ls) (auto simp: err_text_def)

lemma err_text_errs: "err_text (map (PutErr \<circ> line) ls) = unlines ls"
  by (induction ls) (auto simp: err_text_def unlines_def)

lemma out_text_fclose_if: "out_text (fclose_if f) = []"
  by (cases f) (auto simp: out_text_def fclose_if_def)

lemma err_text_fclose_if: "err_text (fclose_if f) = []"
  by (cases f) (auto simp: err_text_def fclose_if_def)


lemma main_in_fail:
  assumes "in_name argv = Some p" and "fopen_r e p = Failed msg"
  shows "main e argv = (1, [FopenR p False, PutErr (perror p msg)])"
  using assms by (simp add: main_def open_input_def)

lemma open_input_ok:
  "input_ok e argv \<Longrightarrow> open_input e (in_name argv) = Inr (parser_input argv, input_events argv)"
  by (auto simp: input_ok_def open_input_def parser_input_def input_events_def yyin_initial_def
      split: option.splits fopen_result.splits)

lemma main_out_fail:
  assumes "input_ok e argv" and "fopen_w e (out_name argv) = Failed msg"
  shows "main e argv =
    (1, input_events argv @ [FopenW (out_name argv) False, PutErr (perror (out_name argv) msg)]
        @ fclose_if (parser_input argv))"
  using assms by (simp add: main_def open_input_ok)

lemma main_ok:
  assumes "input_ok e argv" and "output_ok e argv"
  shows "main e argv =
    (res (parse_of e argv),
     input_events argv @ [FopenW (out_name argv) True]
     @ [PutOut (line banner), CallYyparse (parser_input argv)]
     @ map (PutOut \<circ> line) (emitted (parse_of e argv))
     @ map (PutErr \<circ> line) (diag (parse_of e argv))
     @ (if res (parse_of e argv) \<noteq> 0 then [PutErr (line ''Falha na compilacao'')] else [])
     @ [PutOut (line ''HALT''), Fclose (OutFile (out_name argv))]
     @ fclose_if (yyin_after_parse (parser_input argv)))"
  using assms
  by (simp add: main_def open_input_ok output_ok_def compile_events_def parse_of_def Let_def)

lemma main_cases:
  obtains (in_fail) p msg where "in_name argv = Some p" "fopen_r e p = Failed msg"
  | (out_fail) msg where "input_ok e argv" "fopen_w e (out_name argv) = Failed msg"
  | (ok) "input_ok e argv" "output_ok e argv"
proof (cases "input_ok e argv")
  case True
  then show ?thesis
    by (cases "fopen_w e (out_name argv)") (auto simp: output_ok_def intro: that)
next
  case False
  then obtain p where p: "in_name argv = Some p" "fopen_r e p \<noteq> Opened"
    by (auto simp: input_ok_def split: option.splits)
  then obtain msg where "fopen_r e p = Failed msg"
    by (cases "fopen_r e p") auto
  with p(1) show ?thesis by (rule in_fail)
qed

lemma out_text_simps:
  "out_text [] = []"
  "out_text (PutOut s # t) = s @ out_text t"
  "out_text (PutErr s # t) = out_text t"
  "out_text (FopenR p b # t) = out_text t"
  "out_text (FopenW p b # t) = out_text t"
  "out_text (CallYyparse f # t) = out_text t"
  "out_text (Fclose h # t) = out_text t"
  by (simp_all add: out_text_def)

lemma err_text_simps:
  "err_text [] = []"
  "err_text (PutErr s # t) = s @ err_text t"
  "err_text (PutOut s # t) = err_text t"
  "err_text (FopenR p b # t) = err_text t"
  "err_text (FopenW p b # t) = err_text t"
  "err_text (CallYyparse f # t) = err_text t"
  "err_text (Fclose h # t) = err_text t"
  by (simp_all add: err_text_def)

lemma out_text_input_events: "out_text (input_events argv) = []"
  by (cases "in_name argv") (simp_all add: input_events_def out_text_simps)

lemma err_text_input_events: "err_text (input_events argv) = []"
  by (cases "in_name argv") (simp_all add: input_events_def err_text_simps)

lemma out_opened_simps:
  "out_opened [] = False"
  "out_opened (FopenW p b # t) = (b \<or> out_opened t)"
  "out_opened (PutErr s # t) = out_opened t"
  "out_opened (PutOut s # t) = out_opened t"
  "out_opened (FopenR p b # t) = out_opened t"
  "out_opened (CallYyparse f # t) = out_opened t"
  "out_opened (Fclose h # t) = out_opened t"
  by (simp_all add: out_opened_def)

lemma out_opened_append: "out_opened (a @ b) = (out_opened a \<or> out_opened b)"
  by (simp add: out_opened_def)

lemma out_opened_input_events: "\<not> out_opened (input_events argv)"
  by (cases "in_name argv") (simp_all add: input_events_def out_opened_simps)

lemma out_opened_fclose_if: "\<not> out_opened (fclose_if f)"
  by (cases f) (simp_all add: fclose_if_def out_opened_simps)

lemma out_text_ok:
  assumes "input_ok e argv" and "output_ok e argv"
  shows "out_text (snd (main e argv)) =
    line banner @ unlines (emitted (parse_of e argv)) @ line ''HALT''"
  by (simp add: main_ok [OF assms] out_text_append out_text_input_events out_text_puts
      out_text_errs out_text_fclose_if out_text_simps)

lemma err_text_ok:
  assumes "input_ok e argv" and "output_ok e argv"
  shows "err_text (snd (main e argv)) =
    unlines (diag (parse_of e argv))
    @ (if res (parse_of e argv) \<noteq> 0 then line ''Falha na compilacao'' else [])"
  by (simp add: main_ok [OF assms] err_text_append err_text_input_events err_text_puts
      err_text_errs err_text_fclose_if err_text_simps)

lemma out_opened_iff:
  "out_opened (snd (main e argv)) \<longleftrightarrow> input_ok e argv \<and> output_ok e argv"
proof (cases rule: main_cases [of argv e])
  case (in_fail p msg)
  then show ?thesis
    by (simp add: main_in_fail [OF in_fail] out_opened_simps input_ok_def)
next
  case (out_fail msg)
  then show ?thesis
    by (simp add: main_out_fail [OF out_fail] out_opened_append out_opened_input_events
        out_opened_fclose_if output_ok_def out_opened_simps)
next
  case ok
  then show ?thesis
    by (simp add: main_ok [OF ok] out_opened_append out_opened_simps)
qed

lemma lines_of_framed:
  "lines_of (line banner @ unlines ls @ line ''HALT'') =
     banner # lines_of (unlines ls) @ [''HALT'']"
proof -
  have "lines_of (unlines ls @ line ''HALT'') = lines_of (unlines ls) @ lines_of (line ''HALT'')"
    using unlines_end [of ls] by (rule lines_of_append)
  moreover have "lines_of (line ''HALT'') = [''HALT'']"
    using lines_of_line_append [OF NL_notin_HALT, of "[]"] by (simp add: line_def)
  ultimately show ?thesis
    using lines_of_line_append [OF NL_notin_banner] by (simp add: line_def)
qed

lemmas run_defs = main_def open_input_def in_name_def out_name_def compile_events_def
  sample_env_def yyin_initial_def yyin_after_parse_def fclose_if_def Let_def

lemma sample_run_stdin:
  "main sample_env [''esteira''] =
    (1, [FopenW ''programa.mwasm'' True, PutOut (line banner), CallYyparse None,
         PutOut (line ''POWERON''), PutErr (line ''syntax error''),
         PutErr (line ''Falha na compilacao''), PutOut (line ''HALT''),
         Fclose (OutFile ''programa.mwasm''), Fclose Stdin])"
  by (simp add: run_defs)

text \<open>
  C1. Whenever the output file opens, the text written to it begins with the banner
  line \<^verbatim>\<open>; Codigo gerado pela linguagem ESTEIRA para MicrowaveVM\<close> and its last line
  is \<^verbatim>\<open>HALT\<close>, whatever \<^verbatim>\<open>yyparse\<close> returns and whatever lines it emitted (a
  \<^verbatim>\<open>HALT\<close> of its own for \<^verbatim>\<open>PARAR;\<close> included).
\<close>
theorem banner_first_halt_last:
  assumes "out_opened (snd (main e argv))"
  shows "starts_with (''; Codigo gerado pela linguagem ESTEIRA para MicrowaveVM'' @ [CHR 0x0A])
      (out_text (snd (main e argv)))
    \<and> hd (lines_of (out_text (snd (main e argv)))) =
        ''; Codigo gerado pela linguagem ESTEIRA para MicrowaveVM''
    \<and> last (lines_of (out_text (snd (main e argv)))) = ''HALT''"
proof -
  from assms have ok: "input_ok e argv" "output_ok e argv"
    by (simp_all add: out_opened_iff)
  have "starts_with (line banner) (out_text (snd (main e argv)))
    \<and> hd (lines_of (out_text (snd (main e argv)))) = banner
    \<and> last (lines_of (out_text (snd (main e argv)))) = ''HALT''"
    by (simp add: out_text_ok [OF ok] lines_of_framed starts_with_def)
  then show ?thesis by (simp add: banner_def line_def NL_def)
qed

theorem banner_first_halt_last_witness:
  "out_opened (snd (main sample_env [''esteira'']))
   \<and> res (parse_of sample_env [''esteira'']) \<noteq> 0
   \<and> hd (lines_of (out_text (snd (main sample_env [''esteira''])))) =
       ''; Codigo gerado pela linguagem ESTEIRA para MicrowaveVM''
   \<and> last (lines_of (out_text (snd (main sample_env [''esteira''])))) = ''HALT''"
proof -
  have h: "out_opened (snd (main sample_env [''esteira'']))"
    by (simp add: sample_run_stdin out_opened_simps)
  have "res (parse_of sample_env [''esteira'']) \<noteq> 0"
    by (simp add: parse_of_def parser_input_def in_name_def sample_env_def)
  with h banner_first_halt_last [OF h] show ?thesis by simp
qed

text \<open>
  C2. \<^verbatim>\<open>main\<close> returns 0 exactly when the source (if one is named) and the target
  open and \<^verbatim>\<open>yyparse\<close> returns 0; it returns 1 when a file does not open, and the
  non-zero value of \<^verbatim>\<open>yyparse\<close> otherwise.
\<close>
theorem exit_code_zero_iff_success:
  "(fst (main e argv) = 0 \<longleftrightarrow>
      input_ok e argv \<and> output_ok e argv \<and> res (parse_of e argv) = 0)
   \<and> (\<not> input_ok e argv \<or> \<not> output_ok e argv \<longrightarrow> fst (main e argv) = 1)
   \<and> (input_ok e argv \<and> output_ok e argv \<longrightarrow> fst (main e argv) = res (parse_of e argv))"
proof (cases rule: main_cases [of argv e])
  case (in_fail p msg)
  then show ?thesis
    by (simp add: main_in_fail [OF in_fail] input_ok_def)
next
  case (out_fail msg)
  then show ?thesis
    by (simp add: main_out_fail [OF out_fail] output_ok_def)
next
  case ok
  then show ?thesis
    by (simp add: main_ok [OF ok])
qed


lemma sample_run_file:
  "main sample_env [''esteira'', ''prog.est''] =
    (0, [FopenR ''prog.est'' True, FopenW ''programa.mwasm'' True, PutOut (line banner),
         CallYyparse (Some (InFile ''prog.est'')), PutOut (line ''POWERON''),
         PutOut (line ''BEEP''), PutOut (line ''HALT''),
         Fclose (OutFile ''programa.mwasm''), Fclose (InFile ''prog.est'')])"
  by (simp add: run_defs)

lemma sample_run_readonly:
  "main sample_env [''esteira'', ''prog.est'', ''/ro/out.mwasm''] =
    (1, [FopenR ''prog.est'' True, FopenW ''/ro/out.mwasm'' False,
         PutErr (perror ''/ro/out.mwasm'' ''Permission denied''),
         Fclose (InFile ''prog.est'')])"
  by (simp add: run_defs)

lemma sample_run_missing:
  "main sample_env [''esteira'', ''nope.est'', ''out.mwasm''] =
    (1, [FopenR ''nope.est'' False, PutErr (perror ''nope.est'' ''No such file or directory'')])"
  by (simp add: run_defs)

theorem exit_code_zero_iff_success_witness:
  "fst (main sample_env [''esteira'', ''prog.est'']) = 0
   \<and> input_ok sample_env [''esteira'', ''prog.est'']
   \<and> output_ok sample_env [''esteira'', ''prog.est'']
   \<and> res (parse_of sample_env [''esteira'', ''prog.est'']) = 0
   \<and> \<not> input_ok sample_env [''esteira'', ''nope.est'', ''out.mwasm'']
   \<and> fst (main sample_env [''esteira'', ''nope.est'', ''out.mwasm'']) = 1"
proof -
  have a: "input_ok sample_env [''esteira'', ''prog.est'']"
    "output_ok sample_env [''esteira'', ''prog.est'']"
    "res (parse_of sample_env [''esteira'', ''prog.est'']) = 0"
    by (simp_all add: input_ok_def output_ok_def parse_of_def parser_input_def in_name_def
        out_name_def sample_env_def)
  have b: "\<not> input_ok sample_env [''esteira'', ''nope.est'', ''out.mwasm'']"
    by (simp add: input_ok_def in_name_def sample_env_def)
  from a exit_code_zero_iff_success [of sample_env "[''esteira'', ''prog.est'']"]
  have "fst (main sample_env [''esteira'', ''prog.est'']) = 0" by blast
  moreover from b exit_code_zero_iff_success [of sample_env "[''esteira'', ''nope.est'', ''out.mwasm'']"]
  have "fst (main sample_env [''esteira'', ''nope.est'', ''out.mwasm'']) = 1" by blast
  ultimately show ?thesis using a b by blast
qed

text \<open>
  C3, as stated, fails: when the source file does not open, \<^verbatim>\<open>main\<close> fails with
  the line of \<^verbatim>\<open>perror\<close> alone on standard error, no line there starts with
  \<^verbatim>\<open>Falha na compilacao\<close>, and no \<^verbatim>\<open>HALT\<close> line is written anywhere.
\<close>
theorem no_falha_line_when_input_missing:
  "fst (main sample_env [''esteira'', ''nope.est'', ''out.mwasm'']) \<noteq> 0
   \<and> \<not> list_ex (starts_with ''Falha na compilacao'')
        (lines_of (err_text (snd (main sample_env [''esteira'', ''nope.est'', ''out.mwasm'']))))
   \<and> \<not> list_ex (\<lambda>l. l = ''HALT'')
        (lines_of (out_text (snd (main sample_env [''esteira'', ''nope.est'', ''out.mwasm'']))))"
  by (simp add: sample_run_missing err_text_simps out_text_simps perror_def line_def NL_def
      starts_with_def)

lemma last_lines_of_line:
  assumes "NL \<notin> set l" and "pre = [] \<or> last pre = NL"
  shows "last (lines_of (pre @ line l)) = l"
proof -
  have "lines_of (line l) = [l]"
    using lines_of_line_append [OF assms(1), of "[]"] by (simp add: line_def)
  with lines_of_append [OF assms(2), of "line l"] show ?thesis by simp
qed

lemma NL_notin_Falha: "NL \<notin> set ''Falha na compilacao''"
  by (simp add: NL_def)

lemma perror_text:
  "perror p msg = (if p = [] then msg else p @ '': '' @ msg) @ [CHR 0x0A]"
  by (simp add: perror_def line_def NL_def)

lemma perror_one_line:
  assumes "CHR 0x0A \<notin> set p" and "CHR 0x0A \<notin> set msg"
  shows "lines_of (perror p msg) = [if p = [] then msg else p @ '': '' @ msg]"
proof -
  show ?thesis
  proof (cases "p = []")
    case True
    from assms have "NL \<notin> set msg" by (simp add: NL_def)
    from lines_of_line_append [OF this, of "[]"] True show ?thesis
      by (simp add: perror_def line_def)
  next
    case False
    from assms have "NL \<notin> set (p @ '': '' @ msg)" by (simp add: NL_def)
    from lines_of_line_append [OF this, of "[]"] False show ?thesis
      by (simp add: perror_def line_def)
  qed
qed

lemma open_failure_report:
  assumes "\<not> out_opened (snd (main e argv))"
  obtains p msg where "open_failure e argv = Some (p, msg)"
    and "fst (main e argv) = 1" and "out_text (snd (main e argv)) = []"
    and "err_text (snd (main e argv)) = perror p msg"
proof (cases rule: main_cases [of argv e])
  case (in_fail p msg)
  have "open_failure e argv = Some (p, msg)"
    by (simp add: open_failure_def in_fail)
  then show ?thesis
    by (rule that) (simp_all add: main_in_fail [OF in_fail] out_text_simps err_text_simps)
next
  case (out_fail msg)
  then have "open_failure e argv = Some (out_name argv, msg)"
    by (auto simp: open_failure_def target_failure_def input_ok_def
        split: option.splits fopen_result.splits)
  then show ?thesis
    by (rule that)
      (simp_all add: main_out_fail [OF out_fail] out_text_append err_text_append
        out_text_input_events err_text_input_events out_text_fclose_if err_text_fclose_if
        out_text_simps err_text_simps)
next
  case ok
  with assms show ?thesis by (simp add: out_opened_iff)
qed

text \<open>
  C3, amended. A failing run that opened the output file (so \<^verbatim>\<open>yyparse\<close> ran and
  returned non-zero) ends standard error with the line \<^verbatim>\<open>Falha na compilacao\<close> and
  leaves in the output the banner, the lines emitted so far and a final \<^verbatim>\<open>HALT\<close>.
  A failing run that did not open the output file returns 1 and writes nothing to the
  output; standard error holds exactly what \<^verbatim>\<open>perror\<close> prints for the file that
  failed to open, its path, a colon and the system's message (the message alone for an
  empty path), and nothing else: that is one line when neither holds a newline, and
  \<^verbatim>\<open>Falha na compilacao\<close> is not printed (a line starts with it only if the
  report of \<^verbatim>\<open>perror\<close> itself does).
\<close>
theorem failure_report:
  assumes "fst (main e argv) \<noteq> 0"
  shows "if out_opened (snd (main e argv))
    then last (lines_of (err_text (snd (main e argv)))) = ''Falha na compilacao''
       \<and> out_text (snd (main e argv)) =
           ''; Codigo gerado pela linguagem ESTEIRA para MicrowaveVM'' @ [CHR 0x0A]
           @ unlines (emitted (parse_of e argv)) @ ''HALT'' @ [CHR 0x0A]
       \<and> last (lines_of (out_text (snd (main e argv)))) = ''HALT''
    else (\<exists>p msg.
         open_failure e argv = Some (p, msg)
       \<and> fst (main e argv) = 1
       \<and> out_text (snd (main e argv)) = []
       \<and> err_text (snd (main e argv)) =
           (if p = [] then msg else p @ '': '' @ msg) @ [CHR 0x0A]
       \<and> (CHR 0x0A \<notin> set p \<and> CHR 0x0A \<notin> set msg \<longrightarrow>
            lines_of (err_text (snd (main e argv))) =
              [if p = [] then msg else p @ '': '' @ msg]
            \<and> (list_ex (starts_with ''Falha na compilacao'')
                 (lines_of (err_text (snd (main e argv)))) \<longleftrightarrow>
               starts_with ''Falha na compilacao'' (if p = [] then msg else p @ '': '' @ msg))))"
proof (cases "out_opened (snd (main e argv))")
  case False
  then obtain p msg where f: "open_failure e argv = Some (p, msg)"
    "fst (main e argv) = 1" "out_text (snd (main e argv)) = []"
    "err_text (snd (main e argv)) = perror p msg"
    by (rule open_failure_report)
  have "CHR 0x0A \<notin> set p \<and> CHR 0x0A \<notin> set msg \<longrightarrow>
      lines_of (perror p msg) = [if p = [] then msg else p @ '': '' @ msg]
      \<and> (list_ex (starts_with ''Falha na compilacao'') (lines_of (perror p msg)) \<longleftrightarrow>
         starts_with ''Falha na compilacao'' (if p = [] then msg else p @ '': '' @ msg))"
    by (simp add: perror_one_line)
  with f False show ?thesis
    by (simp only: if_False perror_text) blast
next
  case True
  then have ok: "input_ok e argv" "output_ok e argv"
    by (simp_all add: out_opened_iff)
  from assms have r: "res (parse_of e argv) \<noteq> 0"
    by (simp add: main_ok [OF ok])
  have "last (lines_of (err_text (snd (main e argv)))) = ''Falha na compilacao''"
    using r unlines_end [of "diag (parse_of e argv)"]
    by (simp add: err_text_ok [OF ok] last_lines_of_line [OF NL_notin_Falha])
  moreover have "last (lines_of (out_text (snd (main e argv)))) = ''HALT''"
    by (simp add: out_text_ok [OF ok] lines_of_framed)
  moreover have "out_text (snd (main e argv)) =
      ''; Codigo gerado pela linguagem ESTEIRA para MicrowaveVM'' @ [CHR 0x0A]
      @ unlines (emitted (parse_of e argv)) @ ''HALT'' @ [CHR 0x0A]"
    by (simp add: out_text_ok [OF ok] banner_def line_def NL_def)
  ultimately show ?thesis using True by (simp only: if_True)
qed

theorem failure_report_witness:
  "fst (main sample_env [''esteira'']) \<noteq> 0
   \<and> out_opened (snd (main sample_env [''esteira'']))
   \<and> last (lines_of (err_text (snd (main sample_env [''esteira''])))) = ''Falha na compilacao''
   \<and> last (lines_of (out_text (snd (main sample_env [''esteira''])))) = ''HALT''
   \<and> fst (main sample_env [''esteira'', ''prog.est'', ''/ro/out.mwasm'']) \<noteq> 0
   \<and> \<not> out_opened (snd (main sample_env [''esteira'', ''prog.est'', ''/ro/out.mwasm'']))
   \<and> open_failure sample_env [''esteira'', ''prog.est'', ''/ro/out.mwasm''] =
       Some (''/ro/out.mwasm'', ''Permission denied'')
   \<and> lines_of (err_text (snd (main sample_env [''esteira'', ''prog.est'', ''/ro/out.mwasm'']))) =
       [''/ro/out.mwasm: Permission denied'']
   \<and> \<not> list_ex (starts_with ''Falha na compilacao'')
       (lines_of (err_text (snd (main sample_env [''esteira'', ''prog.est'', ''/ro/out.mwasm'']))))"
proof -
  have a: "fst (main sample_env [''esteira'']) \<noteq> 0"
    and b: "out_opened (snd (main sample_env [''esteira'']))"
    by (simp_all add: sample_run_stdin out_opened_simps)
  have c: "fst (main sample_env [''esteira'', ''prog.est'', ''/ro/out.mwasm'']) \<noteq> 0"
    and d: "\<not> out_opened (snd (main sample_env [''esteira'', ''prog.est'', ''/ro/out.mwasm'']))"
    by (simp_all add: sample_run_readonly out_opened_simps)
  have f: "open_failure sample_env [''esteira'', ''prog.est'', ''/ro/out.mwasm''] =
       Some (''/ro/out.mwasm'', ''Permission denied'')"
    by (simp add: open_failure_def target_failure_def in_name_def out_name_def sample_env_def)
  note k = failure_report [OF a, unfolded if_P [OF b]]
  note m = failure_report [OF c, unfolded if_not_P [OF d] f]
  from m have l: "lines_of (err_text (snd (main sample_env [''esteira'', ''prog.est'', ''/ro/out.mwasm'']))) =
       [''/ro/out.mwasm: Permission denied'']"
    by (simp add: NL_def)
  then have "\<not> list_ex (starts_with ''Falha na compilacao'')
       (lines_of (err_text (snd (main sample_env [''esteira'', ''prog.est'', ''/ro/out.mwasm'']))))"
    by (simp add: starts_with_def)
  with l show ?thesis
    using a b c d f k [THEN conjunct1] k [THEN conjunct2, THEN conjunct2]
    by (intro conjI)
qed

lemma foldl_track_puts:
  "foldl track ops (map (PutOut \<circ> line) ls) = ops"
  "foldl track ops (map (PutErr \<circ> line) ls) = ops"
  by (induction ls) simp_all

text \<open>
  C7. On every path no stream opened by \<^verbatim>\<open>fopen\<close> is still open when \<^verbatim>\<open>main\<close>
  returns. On the normal path the output stream and then \<^verbatim>\<open>yyin\<close> are closed right
  after the final \<^verbatim>\<open>HALT\<close> is written; when the target does not open, the source
  stream is closed after the \<^verbatim>\<open>perror\<close> report.
\<close>
theorem opened_files_closed:
  "still_open (snd (main e argv)) = []
   \<and> (out_opened (snd (main e argv)) \<longrightarrow>
        (\<exists>pre. snd (main e argv) =
           pre @ [PutOut (line ''HALT''), Fclose (OutFile (out_name argv))]
               @ fclose_if (yyin_after_parse (parser_input argv))))
   \<and> (input_ok e argv \<and> \<not> output_ok e argv \<longrightarrow>
        (\<exists>pre. snd (main e argv) =
           pre @ [FopenW (out_name argv) False] @ [PutErr (last_perror e argv)]
               @ fclose_if (parser_input argv)))"
proof (cases rule: main_cases [of argv e])
  case (in_fail p msg)
  then show ?thesis
    by (simp add: main_in_fail [OF in_fail] still_open_def out_opened_simps input_ok_def)
next
  case (out_fail msg)
  then have "\<not> out_opened (snd (main e argv))"
    by (simp add: out_opened_iff output_ok_def)
  moreover have "still_open (snd (main e argv)) = []"
    by (cases "in_name argv")
      (simp_all add: main_out_fail [OF out_fail] still_open_def input_events_def
        parser_input_def fclose_if_def)
  ultimately show ?thesis
    by (simp add: main_out_fail [OF out_fail] last_perror_def out_fail)
next
  case ok
  have "still_open (snd (main e argv)) = []"
    by (cases "in_name argv")
      (simp_all add: main_ok [OF ok] still_open_def input_events_def parser_input_def
        fclose_if_def yyin_after_parse_def foldl_track_puts)
  moreover have "\<exists>pre. snd (main e argv) =
      pre @ [PutOut (line ''HALT''), Fclose (OutFile (out_name argv))]
          @ fclose_if (yyin_after_parse (parser_input argv))"
    unfolding main_ok [OF ok] snd_conv append_assoc [symmetric] by blast
  ultimately show ?thesis using ok by simp
qed


theorem opened_files_closed_witness:
  "still_open (snd (main sample_env [''esteira'', ''prog.est''])) = []
   \<and> out_opened (snd (main sample_env [''esteira'', ''prog.est'']))
   \<and> still_open (snd (main sample_env [''esteira'', ''prog.est'', ''/ro/out.mwasm''])) = []
   \<and> input_ok sample_env [''esteira'', ''prog.est'', ''/ro/out.mwasm'']
   \<and> \<not> output_ok sample_env [''esteira'', ''prog.est'', ''/ro/out.mwasm'']
   \<and> still_open (butlast (snd (main sample_env [''esteira'', ''prog.est'', ''/ro/out.mwasm'']))) =
       [InFile ''prog.est'']"
proof -
  have "out_opened (snd (main sample_env [''esteira'', ''prog.est'']))"
    by (simp add: sample_run_file out_opened_simps)
  moreover have "input_ok sample_env [''esteira'', ''prog.est'', ''/ro/out.mwasm'']"
    "\<not> output_ok sample_env [''esteira'', ''prog.est'', ''/ro/out.mwasm'']"
    by (simp_all add: input_ok_def output_ok_def in_name_def out_name_def sample_env_def)
  moreover have "still_open (butlast (snd (main sample_env [''esteira'', ''prog.est'', ''/ro/out.mwasm'']))) =
       [InFile ''prog.est'']"
    by (simp add: sample_run_readonly still_open_def)
  ultimately show ?thesis
    using opened_files_closed [of sample_env "[''esteira'', ''prog.est'']", THEN conjunct1]
      opened_files_closed [of sample_env "[''esteira'', ''prog.est'', ''/ro/out.mwasm'']", THEN conjunct1]
    by (intro conjI)
qed

lemma fopen_events_append: "fopen_events (a @ b) = fopen_events a @ fopen_events b"
  by (induction a rule: fopen_events.induct) simp_all

lemma fopen_events_puts:
  "fopen_events (map (PutOut \<circ> line) ls) = []"
  "fopen_events (map (PutErr \<circ> line) ls) = []"
  by (induction ls) simp_all

lemma fopen_events_fclose_if: "fopen_events (fclose_if f) = []"
  by (cases f) (simp_all add: fclose_if_def)

lemma fopen_events_main:
  "fopen_events (snd (main e argv)) =
     (case in_name argv of None \<Rightarrow> [] | Some p \<Rightarrow> [FopenR p (input_ok e argv)])
     @ (if input_ok e argv then [FopenW (out_name argv) (output_ok e argv)] else [])"
proof (cases rule: main_cases [of argv e])
  case (in_fail p msg)
  then show ?thesis
    by (simp add: main_in_fail [OF in_fail] input_ok_def)
next
  case (out_fail msg)
  then show ?thesis
    by (cases "in_name argv")
      (simp_all add: main_out_fail [OF out_fail] fopen_events_append fopen_events_fclose_if
        input_events_def output_ok_def)
next
  case ok
  then show ?thesis
    by (cases "in_name argv")
      (simp_all add: main_ok [OF ok] fopen_events_append fopen_events_fclose_if
        fopen_events_puts input_events_def)
qed

lemma yyparse_called:
  assumes "input_ok e argv" and "output_ok e argv"
  shows "CallYyparse (parser_input argv) \<in> set (snd (main e argv))"
  by (simp add: main_ok [OF assms])

text \<open>
  C8. With no argument nothing is opened for reading, \<^verbatim>\<open>yyparse\<close> is called with
  \<^verbatim>\<open>yyin\<close> unset, and the target is \<^verbatim>\<open>programa.mwasm\<close>; with one argument it is
  opened for reading and the target is still \<^verbatim>\<open>programa.mwasm\<close>; with two or more,
  \<^verbatim>\<open>argv[1]\<close> is opened for reading and then \<^verbatim>\<open>argv[2]\<close> for writing.
\<close>
theorem argument_defaults:
  "(length argv < 2 \<longrightarrow>
      fopen_events (snd (main e argv)) = [FopenW ''programa.mwasm'' (output_ok e argv)]
      \<and> (output_ok e argv \<longrightarrow> CallYyparse None \<in> set (snd (main e argv))))
   \<and> (length argv = 2 \<longrightarrow>
      fopen_events (snd (main e argv)) =
        FopenR (argv ! 1) (input_ok e argv)
        # (if input_ok e argv then [FopenW ''programa.mwasm'' (output_ok e argv)] else []))
   \<and> (length argv \<ge> 3 \<longrightarrow>
      fopen_events (snd (main e argv)) =
        FopenR (argv ! 1) (input_ok e argv)
        # (if input_ok e argv then [FopenW (argv ! 2) (output_ok e argv)] else [])
      \<and> (input_ok e argv \<and> output_ok e argv \<longrightarrow>
           CallYyparse (Some (InFile (argv ! 1))) \<in> set (snd (main e argv))))"
proof (intro conjI impI)
  assume a: "length argv < 2"
  then have i: "in_name argv = None" "out_name argv = ''programa.mwasm''"
    by (simp_all add: in_name_def out_name_def)
  then have ok: "input_ok e argv" by (simp add: input_ok_def)
  show "fopen_events (snd (main e argv)) = [FopenW ''programa.mwasm'' (output_ok e argv)]"
    by (simp add: fopen_events_main i ok)
  assume "output_ok e argv"
  from yyparse_called [OF ok this] show "CallYyparse None \<in> set (snd (main e argv))"
    by (simp add: parser_input_def i)
next
  assume "length argv = 2"
  then have i: "in_name argv = Some (argv ! 1)" "out_name argv = ''programa.mwasm''"
    by (simp_all add: in_name_def out_name_def)
  show "fopen_events (snd (main e argv)) =
        FopenR (argv ! 1) (input_ok e argv)
        # (if input_ok e argv then [FopenW ''programa.mwasm'' (output_ok e argv)] else [])"
    by (simp add: fopen_events_main i)
next
  assume "length argv \<ge> 3"
  then have i: "in_name argv = Some (argv ! 1)" "out_name argv = argv ! 2"
    by (simp_all add: in_name_def out_name_def)
  show "fopen_events (snd (main e argv)) =
        FopenR (argv ! 1) (input_ok e argv)
        # (if input_ok e argv then [FopenW (argv ! 2) (output_ok e argv)] else [])"
    by (simp add: fopen_events_main i)
  assume "input_ok e argv \<and> output_ok e argv"
  then show "CallYyparse (Some (InFile (argv ! 1))) \<in> set (snd (main e argv))"
    using yyparse_called [of e argv] by (simp add: parser_input_def i)
qed

theorem argument_defaults_witness:
  "fopen_events (snd (main sample_env [''esteira''])) = [FopenW ''programa.mwasm'' True]
   \<and> CallYyparse None \<in> set (snd (main sample_env [''esteira'']))
   \<and> fopen_events (snd (main sample_env [''esteira'', ''prog.est''])) =
       [FopenR ''prog.est'' True, FopenW ''programa.mwasm'' True]
   \<and> fopen_events (snd (main sample_env [''esteira'', ''prog.est'', ''out.mwasm''])) =
       [FopenR ''prog.est'' True, FopenW ''out.mwasm'' True]
   \<and> CallYyparse (Some (InFile ''prog.est''))
       \<in> set (snd (main sample_env [''esteira'', ''prog.est'', ''out.mwasm'']))"
proof -
  have ok: "output_ok sample_env [''esteira'']" "input_ok sample_env [''esteira'', ''prog.est'']"
    "output_ok sample_env [''esteira'', ''prog.est'']"
    "input_ok sample_env [''esteira'', ''prog.est'', ''out.mwasm'']"
    "output_ok sample_env [''esteira'', ''prog.est'', ''out.mwasm'']"
    by (simp_all add: input_ok_def output_ok_def in_name_def out_name_def sample_env_def)
  show ?thesis
    using argument_defaults [of "[''esteira'']" sample_env]
      argument_defaults [of "[''esteira'', ''prog.est'']" sample_env]
      argument_defaults [of "[''esteira'', ''prog.est'', ''out.mwasm'']" sample_env]
    by (simp add: ok)
qed

text \<open>
  C9. When \<^verbatim>\<open>argv[1]\<close> is given and does not open, \<^verbatim>\<open>main\<close> reports through
  \<^verbatim>\<open>perror\<close> and returns 1 at once: the output file is never opened or written,
  so neither the banner nor a \<^verbatim>\<open>HALT\<close> line is produced.
\<close>
theorem unreadable_input_leaves_no_output:
  assumes "length argv \<ge> 2" and "fopen_r e (argv ! 1) = Failed msg"
  shows "main e argv = (1, [FopenR (argv ! 1) False, PutErr (perror (argv ! 1) msg)])
    \<and> \<not> list_ex is_out_attempt (snd (main e argv))
    \<and> \<not> out_opened (snd (main e argv))
    \<and> out_text (snd (main e argv)) = []"
  by (simp add: main_input_failure [OF assms] out_opened_simps out_text_simps)

theorem unreadable_input_leaves_no_output_witness:
  "length [''esteira'', ''nope.est'', ''out.mwasm''] \<ge> 2
   \<and> fopen_r sample_env ([''esteira'', ''nope.est'', ''out.mwasm''] ! 1) = Failed ''No such file or directory''
   \<and> main sample_env [''esteira'', ''nope.est'', ''out.mwasm''] =
       (1, [FopenR ''nope.est'' False, PutErr (perror ''nope.est'' ''No such file or directory'')])
   \<and> lines_of (err_text (snd (main sample_env [''esteira'', ''nope.est'', ''out.mwasm'']))) =
       [''nope.est: No such file or directory'']"
proof -
  have a: "length [''esteira'', ''nope.est'', ''out.mwasm''] \<ge> 2" by simp
  have b: "fopen_r sample_env ([''esteira'', ''nope.est'', ''out.mwasm''] ! 1) = Failed ''No such file or directory''"
    by (simp add: sample_env_def)
  from unreadable_input_leaves_no_output [OF a b] a b show ?thesis
    by (simp add: err_text_simps perror_def line_def NL_def)
qed

lemma in_name_take: "in_name argv = (case take 2 (drop 1 argv) of [] \<Rightarrow> None | a # _ \<Rightarrow> Some a)"
  by (cases argv; cases "tl argv") (auto simp: in_name_def)

lemma out_name_take:
  "out_name argv = (case take 2 (drop 1 argv) of [a, b] \<Rightarrow> b | _ \<Rightarrow> ''programa.mwasm'')"
  by (cases argv; cases "tl argv"; cases "tl (tl argv)") (auto simp: out_name_def)

text \<open>
  C10. In one environment, two command lines that agree on \<^verbatim>\<open>argv[1]\<close> and
  \<^verbatim>\<open>argv[2]\<close> (or lack them alike) give the same exit code and the same trace, hence
  the same output text and the same standard error, whatever follows \<^verbatim>\<open>argv[2]\<close>.
\<close>
theorem only_first_two_arguments:
  assumes "take 2 (drop 1 argv) = take 2 (drop 1 argv')"
  shows "main e argv = main e argv'"
proof -
  from assms have eq: "in_name argv = in_name argv'" "out_name argv = out_name argv'"
    by (simp_all add: in_name_take out_name_take)
  show ?thesis unfolding main_def eq ..
qed

theorem only_first_two_arguments_witness:
  "take 2 (drop 1 [''esteira'', ''prog.est'', ''out.mwasm'']) =
     take 2 (drop 1 [''./compiler'', ''prog.est'', ''out.mwasm'', ''-v'', ''extra''])
   \<and> main sample_env [''esteira'', ''prog.est'', ''out.mwasm''] =
       main sample_env [''./compiler'', ''prog.est'', ''out.mwasm'', ''-v'', ''extra'']"
proof -
  have h: "take 2 (drop 1 [''esteira'', ''prog.est'', ''out.mwasm'']) =
     take 2 (drop 1 [''./compiler'', ''prog.est'', ''out.mwasm'', ''-v'', ''extra''])"
    by simp
  from only_first_two_arguments [OF h, of sample_env] h show ?thesis by blast
qed

section \<open>Properties of the translator\<close>




lemma ok_abort: "labels_ok R D (abort e)"
  by (simp add: labels_ok_def fine_def abort_def)


lemma fine_mono:
  assumes "fine R D n x" and "R \<subseteq> R'"
  shows "fine R' D n x"
proof (cases x)
  case (fields c n' r)
  with assms have "set (refs c) \<subseteq> R \<union> {n..<n'}" by (simp add: fine_def)
  with assms(2) have "set (refs c) \<subseteq> R' \<union> {n..<n'}" by blast
  with assms(1) fields show ?thesis by (simp add: fine_def)
qed

lemma ok_mono:
  assumes "labels_ok R D g" and "R \<subseteq> R'"
  shows "labels_ok R' D g"
  using assms by (auto simp: labels_ok_def intro: fine_mono)





lemma ok_lookup:
  assumes "\<And>sy. labels_ok R D (k sy)"
  shows "labels_ok R D (case lookup tab x of Inl e \<Rightarrow> abort e | Inr sy \<Rightarrow> k sy)"
  using assms by (simp add: ok_abort split: sum.split)

















lemmas gen_defs = andthen_def new_label_def emit_def abort_def lookup_def declare_symbol_def
  declared_def cesperar_def


lemma cstmts_commands:
  assumes "list_all is_command ss"
  shows "\<exists>code. cstmts ops tab ss n = (code, n, None) \<and> map (render fmt) code = map mnemonic ss"
  using assms
proof (induction ss)
  case Nil
  then show ?case by (simp add: emit_def)
next
  case (Cons s ss)
  then obtain code where c: "cstmts ops tab ss n = (code, n, None)"
    "map (render fmt) code = map mnemonic ss"
    by auto
  from Cons.prems have "is_command s" by simp
  then show ?case
    using c by (cases s) (simp_all add: andthen_def emit_def)
qed

lemma NL_notin_mnemonic: "NL \<notin> set (mnemonic s)"
  by (cases s) (simp_all add: NL_def)

text \<open>
  C4. For a program whose statements are only \<^verbatim>\<open>LIGAR;\<close>, \<^verbatim>\<open>DESLIGAR;\<close>,
  \<^verbatim>\<open>BIP;\<close>, \<^verbatim>\<open>INICIAR;\<close> and \<^verbatim>\<open>PARAR;\<close>, the parser emits one mnemonic per
  statement, in source order, and the lines of the output file are the banner, those
  mnemonics, and the final \<^verbatim>\<open>HALT\<close>.
\<close>
theorem commands_one_to_one:
  assumes "list_all is_command ss"
    and "out_opened (snd (main e argv))"
    and "parse_of e argv = yyparse_of ops fmt describe (Program name [] ss)"
  shows "emitted (parse_of e argv) = map mnemonic ss
    \<and> lines_of (out_text (snd (main e argv))) = banner # map mnemonic ss @ [''HALT'']
    \<and> fst (main e argv) = 0"
proof -
  from cstmts_commands [OF assms(1), of ops "[]" 0 fmt]
  obtain code where c: "cstmts ops [] ss 0 = (code, 0, None)"
    "map (render fmt) code = map mnemonic ss"
    by blast
  then have p: "emitted (parse_of e argv) = map mnemonic ss" "res (parse_of e argv) = 0"
    by (simp_all add: assms(3) yyparse_of_def)
  from assms(2) have ok: "input_ok e argv" "output_ok e argv"
    by (simp_all add: out_opened_iff)
  have "lines_of (unlines (map mnemonic ss)) = map mnemonic ss"
    by (rule lines_of_unlines) (simp add: NL_notin_mnemonic)
  then have "lines_of (out_text (snd (main e argv))) = banner # map mnemonic ss @ [''HALT'']"
    by (simp add: out_text_ok [OF ok] lines_of_framed p)
  moreover have "fst (main e argv) = 0"
    by (simp add: main_ok [OF ok] p)
  ultimately show ?thesis using p by simp
qed

theorem commands_one_to_one_witness:
  "list_all is_command [Ligar, Bip, Iniciar, Parar, Desligar]
   \<and> out_opened (snd (main (translating_env (Program ''p'' [] [Ligar, Bip, Iniciar, Parar, Desligar]))
        [''esteira'', ''p.est'']))
   \<and> lines_of (out_text (snd (main (translating_env (Program ''p'' [] [Ligar, Bip, Iniciar, Parar, Desligar]))
        [''esteira'', ''p.est'']))) =
       [banner, ''POWERON'', ''BEEP'', ''START'', ''HALT'', ''POWEROFF'', ''HALT'']"
proof -
  let ?p = "Program ''p'' [] [Ligar, Bip, Iniciar, Parar, Desligar]"
  let ?argv = "[''esteira'', ''p.est'']"
  have a: "list_all is_command [Ligar, Bip, Iniciar, Parar, Desligar]" by simp
  have "input_ok (translating_env ?p) ?argv" "output_ok (translating_env ?p) ?argv"
    by (simp_all add: input_ok_def output_ok_def in_name_def translating_env_def)
  then have b: "out_opened (snd (main (translating_env ?p) ?argv))"
    by (simp add: out_opened_iff)
  have c: "parse_of (translating_env ?p) ?argv = yyparse_of exact_ops (\<lambda>_. ''?'') (\<lambda>_. ''erro'') ?p"
    by (simp add: parse_of_def translating_env_def)
  from commands_one_to_one [OF a b c] a b show ?thesis by simp
qed

lemma sint_mult_in_range:
  fixes a b :: "64 word"
  assumes "- (2 ^ 63) \<le> sint a * sint b" and "sint a * sint b < 2 ^ 63"
  shows "sint (a * b) = sint a * sint b"
  using assms by (simp add: sint_word_ariths signed_take_bit_int_eq_self)

lemma scale_in_range:
  fixes k :: "64 word"
  shows "- (2 ^ 63) \<le> sint k * 60000 \<Longrightarrow> sint k * 60000 < 2 ^ 63
      \<Longrightarrow> sint (60000 * k) = sint k * 60000"
    and "- (2 ^ 63) \<le> sint k * 1000 \<Longrightarrow> sint k * 1000 < 2 ^ 63
      \<Longrightarrow> sint (1000 * k) = sint k * 1000"
  using sint_mult_in_range [of 60000 k] sint_mult_in_range [of 1000 k]
  by (simp_all add: mult.commute)

lemma esperar_time_unit:
  assumes "t \<in> {UNIT_MIN, UNIT_S, UNIT_MS}"
  shows "cstmt ops tab (Esperar (Num v (Some t)) None) n = ([PUSH (normalise ops t v), SLEEP], n, None)"
    and "cstmt ops tab (Esperar (Num v None) (Some t)) n = ([PUSH (normalise ops t v), SLEEP], n, None)"
  using assms by (auto simp: cesperar_def andthen_def emit_def)

lemma esperar_runs:
  "translate ops (Program name [] [Esperar (Num (IntLit 2) (Some UNIT_S)) None]) =
     ([PUSH (IntLit 2000), SLEEP], 0, None)"
  "translate ops (Program name [] [Esperar (Num (IntLit 2) None) (Some UNIT_S)]) =
     ([PUSH (IntLit 2000), SLEEP], 0, None)"
  by (simp_all add: gen_defs)

lemma esperar_lines:
  "emitted (yyparse_of ops fmt describe
      (Program name [] [Esperar (Num (IntLit 2) (Some UNIT_S)) None])) = [''PUSH 2000'', ''SLEEP'']"
  "emitted (yyparse_of ops fmt describe
      (Program name [] [Esperar (Num (IntLit 2) None) (Some UNIT_S)])) = [''PUSH 2000'', ''SLEEP'']"
  unfolding yyparse_of_def esperar_runs by (simp_all add: show_int_def digit_def)

text \<open>
  C5, as stated, fails for a literal whose product leaves the type of its value: the
  \<^verbatim>\<open>long long\<close> 153722867280913 with the suffix \<^verbatim>\<open>min\<close> is pushed as the 64-bit
  product, which is not 153722867280913 times 60000, and no \<^verbatim>\<open>long long\<close> is.
\<close>
theorem minutes_overflow_long_long:
  "sint (153722867280913 :: 64 word) = 153722867280913
   \<and> cexpr exact_ops [] (Num (IntLit 153722867280913) (Some UNIT_MIN)) 0 =
       ([PUSH (IntLit 9223372036854780000)], 0, None)
   \<and> sint (9223372036854780000 :: 64 word) \<noteq> 153722867280913 * 60000
   \<and> \<not> (\<exists>w :: 64 word. sint w = 153722867280913 * 60000)"
proof -
  have "\<not> (\<exists>w :: 64 word. sint w = 153722867280913 * 60000)"
  proof
    assume "\<exists>w :: 64 word. sint w = 153722867280913 * 60000"
    then obtain w :: "64 word" where "sint w = 153722867280913 * 60000" ..
    with sint_lt [of w] show False by simp
  qed
  then show ?thesis by (simp add: emit_def)
qed

text \<open>
  C5, amended. An integer literal with the suffix \<^verbatim>\<open>min\<close>, \<^verbatim>\<open>s\<close> or \<^verbatim>\<open>km\<close> is
  pushed as the literal times 60000, 1000 or 1000 whenever that product fits in a
  \<^verbatim>\<open>long long\<close>. A floating literal with one of these suffixes, and any literal with
  \<^verbatim>\<open>km/h\<close> (factor 1000/3600) or \<^verbatim>\<open>%\<close> (factor 1/100), is pushed as a floating
  value, the product by the factor in double arithmetic. A literal whose unit is
  canonical already, or that has no unit, is pushed unchanged. \<^verbatim>\<open>ESPERAR\<close> with a
  time unit, on the literal or on the statement, emits the push of the normalised
  literal and \<^verbatim>\<open>SLEEP\<close>; \<^verbatim>\<open>ESPERAR(2 s);\<close> emits \<^verbatim>\<open>PUSH 2000\<close> and \<^verbatim>\<open>SLEEP\<close>.
\<close>
theorem unit_normalisation:
  fixes ops :: "'d double_ops" and k :: "64 word" and x :: 'd and v :: "'d number"
  shows
  "(- (2 ^ 63) \<le> sint k * 60000 \<and> sint k * 60000 < 2 ^ 63 \<longrightarrow>
      (\<exists>w. cexpr ops tab (Num (IntLit k) (Some UNIT_MIN)) n = ([PUSH (IntLit w)], n, None)
         \<and> sint w = sint k * 60000))
   \<and> (- (2 ^ 63) \<le> sint k * 1000 \<and> sint k * 1000 < 2 ^ 63 \<longrightarrow>
      (\<exists>w. cexpr ops tab (Num (IntLit k) (Some UNIT_S)) n = ([PUSH (IntLit w)], n, None)
         \<and> sint w = sint k * 1000)
      \<and> (\<exists>w. cexpr ops tab (Num (IntLit k) (Some UNIT_KM)) n = ([PUSH (IntLit w)], n, None)
         \<and> sint w = sint k * 1000))
   \<and> cexpr ops tab (Num (FloatLit x) (Some UNIT_MIN)) n =
       ([PUSH (FloatLit (times ops 60000 x))], n, None)
   \<and> cexpr ops tab (Num (FloatLit x) (Some UNIT_S)) n =
       ([PUSH (FloatLit (times ops 1000 x))], n, None)
   \<and> cexpr ops tab (Num (FloatLit x) (Some UNIT_KM)) n =
       ([PUSH (FloatLit (times ops 1000 x))], n, None)
   \<and> cexpr ops tab (Num (IntLit k) (Some UNIT_KM_H)) n =
       ([PUSH (FloatLit (times ops (1000 / 3600) (of_ll ops k)))], n, None)
   \<and> cexpr ops tab (Num (FloatLit x) (Some UNIT_KM_H)) n =
       ([PUSH (FloatLit (times ops (1000 / 3600) x))], n, None)
   \<and> cexpr ops tab (Num (IntLit k) (Some UNIT_PERCENT)) n =
       ([PUSH (FloatLit (times ops (1 / 100) (of_ll ops k)))], n, None)
   \<and> cexpr ops tab (Num (FloatLit x) (Some UNIT_PERCENT)) n =
       ([PUSH (FloatLit (times ops (1 / 100) x))], n, None)
   \<and> (u \<in> {UNIT_M_S, UNIT_M, UNIT_MS, UNIT_GRAUS, UNIT_BPM} \<longrightarrow>
        cexpr ops tab (Num v (Some u)) n = ([PUSH v], n, None))
   \<and> cexpr ops tab (Num v None) n = ([PUSH v], n, None)
   \<and> (t \<in> {UNIT_MIN, UNIT_S, UNIT_MS} \<longrightarrow>
        (\<exists>c. cexpr ops tab (Num v (Some t)) n = (c, n, None)
           \<and> cstmt ops tab (Esperar (Num v (Some t)) None) n = (c @ [SLEEP], n, None)
           \<and> cstmt ops tab (Esperar (Num v None) (Some t)) n = (c @ [SLEEP], n, None)))
   \<and> emitted (yyparse_of ops fmt describe
        (Program name [] [Esperar (Num (IntLit 2) (Some UNIT_S)) None])) = [''PUSH 2000'', ''SLEEP'']
   \<and> emitted (yyparse_of ops fmt describe
        (Program name [] [Esperar (Num (IntLit 2) None) (Some UNIT_S)])) = [''PUSH 2000'', ''SLEEP'']"
proof -
  have whole: "- (2 ^ 63) \<le> sint k * 60000 \<and> sint k * 60000 < 2 ^ 63 \<longrightarrow>
      (\<exists>w. cexpr ops tab (Num (IntLit k) (Some UNIT_MIN)) n = ([PUSH (IntLit w)], n, None)
         \<and> sint w = sint k * 60000)"
    "- (2 ^ 63) \<le> sint k * 1000 \<and> sint k * 1000 < 2 ^ 63 \<longrightarrow>
      (\<exists>w. cexpr ops tab (Num (IntLit k) (Some UNIT_S)) n = ([PUSH (IntLit w)], n, None)
         \<and> sint w = sint k * 1000)
      \<and> (\<exists>w. cexpr ops tab (Num (IntLit k) (Some UNIT_KM)) n = ([PUSH (IntLit w)], n, None)
         \<and> sint w = sint k * 1000)"
    by (simp_all add: emit_def scale_in_range)
  have canon: "u \<in> {UNIT_M_S, UNIT_M, UNIT_MS, UNIT_GRAUS, UNIT_BPM} \<longrightarrow>
        cexpr ops tab (Num v (Some u)) n = ([PUSH v], n, None)"
    by (auto simp: emit_def)
  have wait: "t \<in> {UNIT_MIN, UNIT_S, UNIT_MS} \<longrightarrow>
        (\<exists>c. cexpr ops tab (Num v (Some t)) n = (c, n, None)
           \<and> cstmt ops tab (Esperar (Num v (Some t)) None) n = (c @ [SLEEP], n, None)
           \<and> cstmt ops tab (Esperar (Num v None) (Some t)) n = (c @ [SLEEP], n, None))"
    using esperar_time_unit [of t ops tab v n]
    by (simp add: emit_def del: cstmt.simps)
  show ?thesis
    using whole canon wait esperar_lines [of ops fmt describe name]
    by (simp add: emit_def del: cstmt.simps translate.simps)
qed

theorem unit_normalisation_witness:
  "- (2 ^ 63) \<le> sint (3 :: 64 word) * 60000 \<and> sint (3 :: 64 word) * 60000 < 2 ^ 63
   \<and> cexpr exact_ops [] (Num (IntLit 3) (Some UNIT_MIN)) 0 = ([PUSH (IntLit 180000)], 0, None)
   \<and> UNIT_MS \<in> {UNIT_M_S, UNIT_M, UNIT_MS, UNIT_GRAUS, UNIT_BPM}
   \<and> cexpr exact_ops [] (Num (IntLit 250) (Some UNIT_MS)) 0 = ([PUSH (IntLit 250)], 0, None)
   \<and> UNIT_MIN \<in> {UNIT_MIN, UNIT_S, UNIT_MS}
   \<and> cstmt exact_ops [] (Esperar (Num (IntLit 5) None) (Some UNIT_MIN)) 0 =
       ([PUSH (IntLit 300000), SLEEP], 0, None)
   \<and> lines_of (out_text (snd (main
         (translating_env (Program ''p'' [] [Esperar (Num (IntLit 2) (Some UNIT_S)) None]))
         [''esteira'', ''p.est'']))) =
       [''; Codigo gerado pela linguagem ESTEIRA para MicrowaveVM'', ''PUSH 2000'', ''SLEEP'',
        ''HALT'']"
proof -
  let ?p = "Program ''p'' [] [Esperar (Num (IntLit 2) (Some UNIT_S)) None] :: rat program"
  let ?argv = "[''esteira'', ''p.est'']"
  note a = unit_normalisation [where k = 3 and ops = exact_ops and tab = "[]" and n = 0
      and x = 0 and v = "IntLit 250" and u = UNIT_MS and t = UNIT_MIN
      and fmt = "\<lambda>_. ''?''" and describe = "\<lambda>_. ''erro''" and name = "''p''"]
  note b = unit_normalisation [where k = 5 and ops = exact_ops and tab = "[]" and n = 0
      and x = 0 and v = "IntLit 5" and u = UNIT_MS and t = UNIT_MIN
      and fmt = "\<lambda>_. ''?''" and describe = "\<lambda>_. ''erro''" and name = "''p''"]
  have r: "- (2 ^ 63) \<le> sint (3 :: 64 word) * 60000 \<and> sint (3 :: 64 word) * 60000 < 2 ^ 63"
    by simp
  have 1: "cexpr exact_ops [] (Num (IntLit 3) (Some UNIT_MIN)) 0 = ([PUSH (IntLit 180000)], 0, None)"
    by (simp add: emit_def)
  have c: "UNIT_MS \<in> {UNIT_M_S, UNIT_M, UNIT_MS, UNIT_GRAUS, UNIT_BPM}" by simp
  with a have 2: "cexpr exact_ops [] (Num (IntLit 250) (Some UNIT_MS)) 0 = ([PUSH (IntLit 250)], 0, None)"
    by blast
  have t: "UNIT_MIN \<in> {UNIT_MIN, UNIT_S, UNIT_MS}" by simp
  with b obtain c where "cexpr exact_ops [] (Num (IntLit 5) (Some UNIT_MIN)) 0 = (c, 0, None)"
    "cstmt exact_ops [] (Esperar (Num (IntLit 5) None) (Some UNIT_MIN)) 0 = (c @ [SLEEP], 0, None)"
    by blast
  then have 3: "cstmt exact_ops [] (Esperar (Num (IntLit 5) None) (Some UNIT_MIN)) 0 =
       ([PUSH (IntLit 300000), SLEEP], 0, None)"
    by (simp add: emit_def del: cstmt.simps)
  have ok: "input_ok (translating_env ?p) ?argv" "output_ok (translating_env ?p) ?argv"
    by (simp_all add: input_ok_def output_ok_def in_name_def translating_env_def)
  from a have e: "emitted (parse_of (translating_env ?p) ?argv) = [''PUSH 2000'', ''SLEEP'']"
    by (simp add: parse_of_def translating_env_def del: translate.simps cexpr.simps cstmt.simps)
  have "lines_of (unlines [''PUSH 2000'', ''SLEEP'']) = [''PUSH 2000'', ''SLEEP'']"
    by (rule lines_of_unlines) (simp add: NL_def)
  then have "lines_of (out_text (snd (main (translating_env ?p) ?argv))) =
      [banner, ''PUSH 2000'', ''SLEEP'', ''HALT'']"
    by (simp add: out_text_ok [OF ok] lines_of_framed e)
  then have 4: "lines_of (out_text (snd (main (translating_env ?p) ?argv))) =
      [''; Codigo gerado pela linguagem ESTEIRA para MicrowaveVM'', ''PUSH 2000'', ''SLEEP'',
       ''HALT'']"
    by (simp add: banner_def)
  from r 1 c 2 t 3 4 show ?thesis by (intro conjI) simp_all
qed

subsection \<open>Labels\<close>

text \<open>From here on \<open>show_nat\<close> is unfolded by hand.\<close>

declare show_nat.simps [simp del]

lemma show_nat_nonempty: "show_nat n \<noteq> []"
  by (subst show_nat.simps) simp

lemma digit_inj:
  assumes "d < 10" and "d' < 10" and "digit d = digit d'"
  shows "d = d'"
proof -
  have cases10: "\<And>x::nat. x < 10 \<Longrightarrow> x \<in> {0, 1, 2, 3, 4, 5, 6, 7, 8, 9}" by auto
  from cases10 [OF assms(1)] cases10 [OF assms(2)] assms(3) show ?thesis
    by (auto simp: digit_def)
qed

lemma digit_is_digit: "d < 10 \<Longrightarrow> digit d \<in> set ''0123456789''"
proof -
  assume "d < 10"
  then have "d \<in> {0, 1, 2, 3, 4, 5, 6, 7, 8, 9}" by auto
  then show ?thesis by (auto simp: digit_def)
qed

lemma show_nat_digits: "set (show_nat n) \<subseteq> set ''0123456789''"
proof (induction n rule: show_nat.induct)
  case (1 n)
  show ?case
  proof (cases "n < 10")
    case True
    then show ?thesis
      using digit_is_digit [of n] by (subst show_nat.simps) simp
  next
    case False
    have "n mod 10 < 10" by simp
    from digit_is_digit [OF this] 1 False show ?thesis
      by (subst show_nat.simps) simp
  qed
qed

lemma show_nat_inj: "show_nat n = show_nat m \<Longrightarrow> n = m"
proof (induction n arbitrary: m rule: show_nat.induct)
  case (1 n)
  show ?case
  proof (cases "n < 10")
    case True
    note n = this
    show ?thesis
    proof (cases "m < 10")
      case True
      with n "1.prems" have "digit n = digit m"
        by (simp add: show_nat.simps [of n] show_nat.simps [of m])
      with n True show ?thesis by (rule digit_inj)
    next
      case False
      with n "1.prems" show ?thesis
        using show_nat_nonempty [of "m div 10"]
        by (simp add: show_nat.simps [of n] show_nat.simps [of m])
    qed
  next
    case False
    note n = this
    show ?thesis
    proof (cases "m < 10")
      case True
      with n "1.prems" show ?thesis
        using show_nat_nonempty [of "n div 10"]
        by (simp add: show_nat.simps [of n] show_nat.simps [of m])
    next
      case False
      with n "1.prems" have e: "show_nat (n div 10) = show_nat (m div 10)"
        "digit (n mod 10) = digit (m mod 10)"
        by (simp_all add: show_nat.simps [of n] show_nat.simps [of m])
      from "1.IH" [OF n e(1)] have "n div 10 = m div 10" .
      moreover have "n mod 10 = m mod 10"
        by (rule digit_inj [OF _ _ e(2)]) simp_all
      ultimately show ?thesis by (metis div_mult_mod_eq)
    qed
  qed
qed

lemma label_line_not_load: "CHR ''O'' # x \<noteq> show_nat k @ y"
proof
  assume a: "CHR ''O'' # x = show_nat k @ y"
  obtain c cs where s: "show_nat k = c # cs"
    using show_nat_nonempty [of k] by (cases "show_nat k") auto
  with a have "c = CHR ''O''" by simp
  moreover from s show_nat_digits [of k] have "c \<in> set ''0123456789''" by auto
  ultimately show False by simp
qed

lemma render_label_iff: "render fmt i = label_name k @ '':'' \<longleftrightarrow> i = LABEL k"
proof (cases i)
  case (PUSH v)
  then show ?thesis by (cases v) (simp_all add: label_name_def)
next
  case (LOAD s)
  then show ?thesis by (simp add: label_name_def label_line_not_load)
next
  case (LABEL j)
  then show ?thesis by (auto simp: label_name_def dest: show_nat_inj)
qed (simp_all add: label_name_def)

lemma count_defs_Cons:
  "count_list (defs (i # c)) k = (if i = LABEL k then 1 else 0) + count_list (defs c) k"
  by (cases i) simp_all

lemma count_label_lines:
  "count_list (map (render fmt) c) (label_name k @ '':'') = count_list (defs c) k"
proof (induction c)
  case Nil
  show ?case by simp
next
  case (Cons i c)
  then show ?case
    by (simp add: count_defs_Cons render_label_iff del: defs.simps)
qed











lemma label_line_iff:
  "label_name k @ '':'' \<in> set (map (render fmt) c) \<longleftrightarrow> k \<in> set (defs c)"
  using count_label_lines [of fmt c k]
    count_list_0_iff [of "map (render fmt) c" "label_name k @ '':''"]
    count_list_0_iff [of "defs c" k]
  by auto







end
